theory Spec2Isabelle
  imports Complex_Main
begin

section \<open>The JavaScript values the bot handles\<close>

text \<open>
  The bot is TypeScript running on Node. Its strings are sequences of UTF-16 code units;
  the model uses \<open>string\<close> and reads a \<open>char\<close> as a code unit below 256 (Latin-1), which
  covers every literal of the source. Numbers that arrive in JSON are modelled as integers
  (token counts, ids); \<open>JNaN\<close> is the number NaN, which arithmetic on \<open>undefined\<close>
  produces. The response body of an HTTP call is typed \<open>any\<close> in the source, so it is a
  \<open>jsval\<close>: whatever JSON the backend sent.
\<close>

datatype jsval =
    JUndefined
  | JNull
  | JNaN
  | JBool bool
  | JNum int
  | JStr string
  | JArr "jsval list"
  | JObj "(string \<times> jsval) list"

text \<open>Thrown values. Every throw of the source is an \<open>Error\<close>; reading a property of
  \<open>undefined\<close> or \<open>null\<close> is the runtime's \<open>TypeError\<close>.\<close>

datatype js_error = Error string | TypeError string

fun message :: "js_error \<Rightarrow> string" where
  "message (Error m) = m"
| "message (TypeError m) = m"

fun digits :: "nat \<Rightarrow> string" where
  \<comment> \<open>The decimal digits of a natural number, most significant first.\<close>
  "digits n =
     (if n < 10 then [''0123456789'' ! n]
      else digits (n div 10) @ [''0123456789'' ! (n mod 10)])"

declare digits.simps [simp del]

definition toString_int :: "int \<Rightarrow> string" where
  \<comment> \<open>\<open>Number.prototype.toString\<close> on an integer.\<close>
  "toString_int i = (if i < 0 then ''-'' @ digits (nat (- i)) else digits (nat i))"

fun join :: "string \<Rightarrow> string list \<Rightarrow> string" where
  \<comment> \<open>\<open>Array.prototype.join\<close> on an array of strings.\<close>
  "join sep [] = []"
| "join sep [x] = x"
| "join sep (x # y # ys) = x @ sep @ join sep (y # ys)"

fun truthy :: "jsval \<Rightarrow> bool" where
  "truthy JUndefined = False"
| "truthy JNull = False"
| "truthy JNaN = False"
| "truthy (JBool b) = b"
| "truthy (JNum n) = (n \<noteq> 0)"
| "truthy (JStr s) = (s \<noteq> [])"
| "truthy (JArr xs) = True"
| "truthy (JObj kvs) = True"

definition js_or :: "jsval \<Rightarrow> jsval \<Rightarrow> jsval" where
  \<comment> \<open>\<open>a || b\<close> on values.\<close>
  "js_or a b = (if truthy a then a else b)"

definition cannot_read :: "string \<Rightarrow> string \<Rightarrow> js_error" where
  \<comment> \<open>The TypeError of V8 for \<open>undefined.k\<close> and \<open>null.k\<close>.\<close>
  "cannot_read what k =
     TypeError (''Cannot read properties of '' @ what @ '' (reading ''
                @ [CHR 0x27] @ k @ [CHR 0x27] @ '')'')"

fun getProp :: "jsval \<Rightarrow> string \<Rightarrow> js_error + jsval" where
  \<comment> \<open>\<open>v.k\<close> for a name \<open>k\<close> that no prototype defines (the adapters read
      \<open>choices\<close>, \<open>message\<close>, \<open>content\<close>, \<open>text\<close>, \<open>response\<close>, \<open>usage\<close>,
      \<open>input_tokens\<close>, \<open>output_tokens\<close>): an own property or \<open>undefined\<close>.\<close>
  "getProp JUndefined k = Inl (cannot_read ''undefined'' k)"
| "getProp JNull k = Inl (cannot_read ''null'' k)"
| "getProp (JObj kvs) k = Inr (case map_of kvs k of Some v \<Rightarrow> v | None \<Rightarrow> JUndefined)"
| "getProp (JArr xs) k = Inr (if k = ''length'' then JNum (int (length xs)) else JUndefined)"
| "getProp (JStr s) k = Inr (if k = ''length'' then JNum (int (length s)) else JUndefined)"
| "getProp v k = Inr JUndefined"

fun getIndex :: "jsval \<Rightarrow> nat \<Rightarrow> js_error + jsval" where
  \<comment> \<open>\<open>v[i]\<close> for a literal index.\<close>
  "getIndex JUndefined i = Inl (cannot_read ''undefined'' (digits i))"
| "getIndex JNull i = Inl (cannot_read ''null'' (digits i))"
| "getIndex (JArr xs) i = Inr (if i < length xs then xs ! i else JUndefined)"
| "getIndex (JStr s) i = Inr (if i < length s then JStr [s ! i] else JUndefined)"
| "getIndex (JObj kvs) i = Inr (case map_of kvs (digits i) of Some v \<Rightarrow> v | None \<Rightarrow> JUndefined)"
| "getIndex v i = Inr JUndefined"

definition optChain :: "jsval \<Rightarrow> string \<Rightarrow> jsval" where
  \<comment> \<open>\<open>v?.k\<close>: \<open>undefined\<close> when \<open>v\<close> is \<open>undefined\<close> or \<open>null\<close>.\<close>
  "optChain v k = (case getProp v k of Inl e \<Rightarrow> JUndefined | Inr x \<Rightarrow> x)"

fun js_toString :: "jsval \<Rightarrow> string" where
  \<comment> \<open>The abstract operation ToString, as \<open>+\<close> applies it.\<close>
  "js_toString JUndefined = ''undefined''"
| "js_toString JNull = ''null''"
| "js_toString JNaN = ''NaN''"
| "js_toString (JBool b) = (if b then ''true'' else ''false'')"
| "js_toString (JNum n) = toString_int n"
| "js_toString (JStr s) = s"
| "js_toString (JArr xs) =
     join '','' (map (\<lambda>x. if x = JUndefined \<or> x = JNull then [] else js_toString x) xs)"
| "js_toString (JObj kvs) = ''[object Object]''"

fun js_toNumber :: "jsval \<Rightarrow> int option" where
  \<comment> \<open>ToNumber on the values that are not converted to strings first; \<open>None\<close> is NaN.\<close>
  "js_toNumber (JNum n) = Some n"
| "js_toNumber (JBool b) = Some (if b then 1 else 0)"
| "js_toNumber JNull = Some 0"
| "js_toNumber v = None"

fun concatenates :: "jsval \<Rightarrow> bool" where
  \<comment> \<open>Whether ToPrimitive of the operand is a string.\<close>
  "concatenates (JStr s) = True"
| "concatenates (JArr xs) = True"
| "concatenates (JObj kvs) = True"
| "concatenates v = False"

definition js_plus :: "jsval \<Rightarrow> jsval \<Rightarrow> jsval" where
  \<comment> \<open>\<open>a + b\<close>.\<close>
  "js_plus a b =
     (if concatenates a \<or> concatenates b then JStr (js_toString a @ js_toString b)
      else (case (js_toNumber a, js_toNumber b) of
              (Some x, Some y) \<Rightarrow> JNum (x + y)
            | _ \<Rightarrow> JNaN))"

subsection \<open>String methods\<close>

definition startsWith :: "string \<Rightarrow> string \<Rightarrow> bool" where
  "startsWith s p = (take (length p) s = p)"

definition substring :: "string \<Rightarrow> nat \<Rightarrow> string" where
  \<comment> \<open>\<open>s.substring(n)\<close>.\<close>
  "substring s n = drop n s"

definition isWhiteSpace :: "char \<Rightarrow> bool" where
  \<comment> \<open>WhiteSpace and LineTerminator code units below 256.\<close>
  "isWhiteSpace c =
     (c = CHR 0x09 \<or> c = CHR 0x0A \<or> c = CHR 0x0B \<or> c = CHR 0x0C \<or> c = CHR 0x0D
      \<or> c = CHR 0x20 \<or> c = CHR 0xA0)"

definition trim :: "string \<Rightarrow> string" where
  "trim s = rev (dropWhile isWhiteSpace (rev (dropWhile isWhiteSpace s)))"

definition toLower_char :: "char \<Rightarrow> char" where
  \<comment> \<open>A-Z, and the Latin-1 capitals 0xC0-0xDE without the multiplication sign 0xD7.\<close>
  "toLower_char c =
     (let n = (of_char c :: nat) in
      if (65 \<le> n \<and> n \<le> 90) \<or> (192 \<le> n \<and> n \<le> 222 \<and> n \<noteq> 215)
      then char_of (n + 32) else c)"

definition toLowerCase :: "string \<Rightarrow> string" where
  "toLowerCase s = map toLower_char s"

section \<open>The conversation store of BotService\<close>

text \<open>
  \<open>chatHistory\<close> is an object used as a dictionary from chat id to an array of turns. A turn
  is declared \<open>string\<close>, but the reply of the generator is stored unchecked, so a turn is a
  \<open>jsval\<close>; the user's text is stored as \<open>JStr text\<close>.
\<close>

record bot_state =
  chatHistory :: "string \<rightharpoonup> jsval list"

definition initial_state :: bot_state where
  \<comment> \<open>\<open>private readonly chatHistory: ChatHistory = {}\<close>\<close>
  "initial_state = \<lparr> chatHistory = Map.empty \<rparr>"

definition maxHistoryLength :: nat where
  "maxHistoryLength = 10"

definition slice_last :: "nat \<Rightarrow> 'a list \<Rightarrow> 'a list" where
  \<comment> \<open>\<open>xs.slice(-n)\<close> for \<open>n > 0\<close>: from index \<open>max (length - n) 0\<close> to the end.\<close>
  "slice_last n xs = drop (length xs - n) xs"

definition addToChatHistory :: "bot_state \<Rightarrow> string \<Rightarrow> jsval \<Rightarrow> bot_state" where
  "addToChatHistory st chatId msg =
     (let h0 = (case chatHistory st chatId of None \<Rightarrow> [] | Some h \<Rightarrow> h);
          h1 = h0 @ [msg];
          h2 = (if length h1 > maxHistoryLength * 2
                then slice_last (maxHistoryLength * 2) h1 else h1)
      in st\<lparr> chatHistory := (chatHistory st)(chatId \<mapsto> h2) \<rparr>)"

definition getChatHistory :: "bot_state \<Rightarrow> string \<Rightarrow> jsval list" where
  "getChatHistory st chatId = (case chatHistory st chatId of None \<Rightarrow> [] | Some h \<Rightarrow> h)"

fun appends :: "bot_state \<Rightarrow> (string \<times> jsval) list \<Rightarrow> bot_state" where
  \<comment> \<open>A sequence of \<open>addToChatHistory\<close> calls, each with its chat id.\<close>
  "appends st [] = st"
| "appends st ((c, m) # ops) = appends (addToChatHistory st c m) ops"

definition appended_to :: "string \<Rightarrow> (string \<times> jsval) list \<Rightarrow> jsval list" where
  \<comment> \<open>The entries a sequence of calls appended to one chat, in call order.\<close>
  "appended_to c ops = map snd (filter (\<lambda>p. fst p = c) ops)"

section \<open>Configuration\<close>

text \<open>
  The sections of \<open>BotConfig\<close> that the two services read. An optional field is an
  \<open>option\<close>; \<open>model\<close> is declared required but is read with a default, and
  \<open>provider\<close> is a string, since the dispatch has a branch for names outside the four.
\<close>

record llm_config =
  provider :: string
  apiKey :: string
  model :: "string option"
  endpoint :: "string option"
  maxTokens :: "int option"
  temperature :: "rat option"
  systemPrompt :: "string option"

record personality_config =
  name :: string
  description :: string
  traits :: "string list"
  tone :: string
  responseStyle :: string

record settings_config =
  logLevel :: string
  allowedUsers :: "string list option"
  blacklistedUsers :: "string list option"
  commandPrefix :: "string option"
  responseDelay :: "int option"

definition string_or :: "string option \<Rightarrow> string \<Rightarrow> string" where
  \<comment> \<open>\<open>a || d\<close> for an optional string: the empty string is falsy.\<close>
  "string_or a d = (case a of None \<Rightarrow> d | Some s \<Rightarrow> if s \<noteq> [] then s else d)"

definition number_or :: "'a::zero option \<Rightarrow> 'a \<Rightarrow> 'a" where
  \<comment> \<open>\<open>a || d\<close> for an optional number: zero is falsy.\<close>
  "number_or a d = (case a of None \<Rightarrow> d | Some n \<Rightarrow> if n \<noteq> 0 then n else d)"

section \<open>LlmService\<close>

record chat_message =
  role :: string
  content :: jsval

record chat_request =
  r_model :: string
  messages :: "chat_message list"
  max_tokens :: int
  r_temperature :: rat

record custom_request =
  c_model :: "string option"
  system_prompt :: string
  user_message :: string
  chat_history :: "jsval list"
  c_max_tokens :: int
  c_temperature :: rat

datatype payload = Chat chat_request | Custom custom_request

record http_request =
  url :: string
  body :: payload
  headers :: "(string \<times> string) list"

text \<open>
  \<open>axios.post\<close> is the network: it resolves with a response whose \<open>data\<close> is the parsed
  body, or rejects. The model takes it as a function of the request. Everything the
  services do to the outside is recorded, in order, as a list of events.
\<close>

type_synonym http = "http_request \<Rightarrow> js_error + jsval"

datatype event =
    LogWarn string
  | LogError string
  | LogDebug string
  | HttpPost http_request
  | Generate string "jsval list"
  | SendChatAction string string
  | Delay int
  | Reply jsval

text \<open>\<open>JSON.stringify(value, null, indent)\<close> belongs to the runtime; the model takes it as
  a parameter (indent 0 for the call without indentation).\<close>

type_synonym json_stringify = "jsval \<Rightarrow> nat \<Rightarrow> string"

record llm_response =
  resp_text :: jsval
  resp_usage :: jsval

definition bindE :: "'e + 'a \<Rightarrow> ('a \<Rightarrow> 'e + 'b) \<Rightarrow> 'e + 'b" where
  \<comment> \<open>Sequencing: a throw skips the rest.\<close>
  "bindE r f = (case r of Inl e \<Rightarrow> Inl e | Inr v \<Rightarrow> f v)"

definition rethrow_logged ::
  "string \<Rightarrow> event list \<times> (js_error + 'a) \<Rightarrow> event list \<times> (js_error + 'a)" where
  \<comment> \<open>\<open>catch (error) { this.logger.error(tag + error.message); throw error; }\<close>\<close>
  "rethrow_logged tag r =
     (case snd r of
        Inl e \<Rightarrow> (fst r @ [LogError (tag @ message e)], Inl e)
      | Inr v \<Rightarrow> r)"

function formatChatHistory_loop :: "nat \<Rightarrow> jsval list \<Rightarrow> chat_message list \<Rightarrow> chat_message list" where
  "formatChatHistory_loop i history formattedHistory =
     (if i < length history
      then formatChatHistory_loop (i + 1) history
             (formattedHistory @
                [\<lparr> role = (if i mod 2 = 0 then ''user'' else ''assistant''),
                   content = history ! i \<rparr>])
      else formattedHistory)"
  by pat_completeness auto
termination
  by (relation "measure (\<lambda>(i, history, formattedHistory). length history - i)") auto

declare formatChatHistory_loop.simps [simp del]

definition formatChatHistory :: "jsval list \<Rightarrow> chat_message list" where
  "formatChatHistory history = formatChatHistory_loop 0 history []"

definition generateSystemPrompt :: "personality_config \<Rightarrow> string" where
  "generateSystemPrompt pers =
     ''You are '' @ name pers @ '', '' @ description pers @ ''. '' @ [CHR 0x0A]
     @ ''Your personality traits include: '' @ join '', '' (traits pers) @ ''.'' @ [CHR 0x0A]
     @ ''You speak in a '' @ tone pers @ '' tone and your response style is ''
     @ responseStyle pers @ ''.'' @ [CHR 0x0A]
     @ ''Respond to the user's messages in character, maintaining this personality consistently.''"

definition chat_messages :: "string \<Rightarrow> string \<Rightarrow> jsval list \<Rightarrow> chat_message list" where
  \<comment> \<open>The array literal that the Grok, OpenAI and Anthropic adapters each write out.\<close>
  "chat_messages sysPrompt userMessage history =
     [\<lparr> role = ''system'', content = JStr sysPrompt \<rparr>]
     @ formatChatHistory history
     @ [\<lparr> role = ''user'', content = JStr userMessage \<rparr>]"

definition bearer_headers :: "llm_config \<Rightarrow> (string \<times> string) list" where
  "bearer_headers cfg =
     [(''Authorization'', ''Bearer '' @ apiKey cfg), (''Content-Type'', ''application/json'')]"

definition choices_text :: "jsval \<Rightarrow> js_error + llm_response" where
  \<comment> \<open>\<open>{ text: data.choices[0].message.content, usage: data.usage }\<close>\<close>
  "choices_text data =
     bindE (getProp data ''choices'') (\<lambda>choices.
     bindE (getIndex choices 0) (\<lambda>choice.
     bindE (getProp choice ''message'') (\<lambda>msg.
     bindE (getProp msg ''content'') (\<lambda>t.
     bindE (getProp data ''usage'') (\<lambda>u.
     Inr \<lparr> resp_text = t, resp_usage = u \<rparr>)))))"

definition grok_request :: "llm_config \<Rightarrow> string \<Rightarrow> string \<Rightarrow> jsval list \<Rightarrow> http_request" where
  "grok_request cfg sysPrompt userMessage history =
     \<lparr> url = string_or (endpoint cfg) ''https://api.grok.x/v1/chat/completions'',
       body = Chat \<lparr> r_model = string_or (model cfg) ''grok-3'',
                     messages = chat_messages sysPrompt userMessage history,
                     max_tokens = number_or (maxTokens cfg) 1000,
                     r_temperature = number_or (temperature cfg) (7 / 10) \<rparr>,
       headers = bearer_headers cfg \<rparr>"

definition callGrokApi ::
  "llm_config \<Rightarrow> http \<Rightarrow> string \<Rightarrow> string \<Rightarrow> jsval list
     \<Rightarrow> event list \<times> (js_error + llm_response)" where
  "callGrokApi cfg post sysPrompt userMessage history =
     rethrow_logged ''Grok API error: ''
       (let request = grok_request cfg sysPrompt userMessage history
        in ([HttpPost request], bindE (post request) choices_text))"

definition openai_request :: "llm_config \<Rightarrow> string \<Rightarrow> string \<Rightarrow> jsval list \<Rightarrow> http_request" where
  "openai_request cfg sysPrompt userMessage history =
     \<lparr> url = string_or (endpoint cfg) ''https://api.openai.com/v1/chat/completions'',
       body = Chat \<lparr> r_model = string_or (model cfg) ''gpt-4'',
                     messages = chat_messages sysPrompt userMessage history,
                     max_tokens = number_or (maxTokens cfg) 1000,
                     r_temperature = number_or (temperature cfg) (7 / 10) \<rparr>,
       headers = bearer_headers cfg \<rparr>"

definition callOpenAiApi ::
  "llm_config \<Rightarrow> http \<Rightarrow> string \<Rightarrow> string \<Rightarrow> jsval list
     \<Rightarrow> event list \<times> (js_error + llm_response)" where
  "callOpenAiApi cfg post sysPrompt userMessage history =
     rethrow_logged ''OpenAI API error: ''
       (let request = openai_request cfg sysPrompt userMessage history
        in ([HttpPost request], bindE (post request) choices_text))"

definition anthropic_request :: "llm_config \<Rightarrow> string \<Rightarrow> string \<Rightarrow> jsval list \<Rightarrow> http_request" where
  "anthropic_request cfg sysPrompt userMessage history =
     \<lparr> url = string_or (endpoint cfg) ''https://api.anthropic.com/v1/messages'',
       body = Chat \<lparr> r_model = string_or (model cfg) ''claude-3-opus-20240229'',
                     messages = chat_messages sysPrompt userMessage history,
                     max_tokens = number_or (maxTokens cfg) 1000,
                     r_temperature = number_or (temperature cfg) (7 / 10) \<rparr>,
       headers = [(''x-api-key'', apiKey cfg), (''anthropic-version'', ''2023-06-01''),
                  (''Content-Type'', ''application/json'')] \<rparr>"

definition anthropic_usage :: "jsval \<Rightarrow> jsval" where
  \<comment> \<open>The \<open>usage\<close> object literal of the Anthropic adapter, from \<open>data.usage\<close>.\<close>
  "anthropic_usage u =
     JObj [(''promptTokens'', optChain u ''input_tokens''),
           (''completionTokens'', optChain u ''output_tokens''),
           (''totalTokens'',
              js_plus (js_or (optChain u ''input_tokens'') (JNum 0))
                      (js_or (optChain u ''output_tokens'') (JNum 0)))]"

definition content_text :: "jsval \<Rightarrow> js_error + llm_response" where
  \<comment> \<open>\<open>{ text: data.content[0].text, usage: {...} }\<close>\<close>
  "content_text data =
     bindE (getProp data ''content'') (\<lambda>blocks.
     bindE (getIndex blocks 0) (\<lambda>block.
     bindE (getProp block ''text'') (\<lambda>t.
     bindE (getProp data ''usage'') (\<lambda>u.
     Inr \<lparr> resp_text = t, resp_usage = anthropic_usage u \<rparr>))))"

definition callAnthropicApi ::
  "llm_config \<Rightarrow> http \<Rightarrow> string \<Rightarrow> string \<Rightarrow> jsval list
     \<Rightarrow> event list \<times> (js_error + llm_response)" where
  "callAnthropicApi cfg post sysPrompt userMessage history =
     rethrow_logged ''Anthropic API error: ''
       (let request = anthropic_request cfg sysPrompt userMessage history
        in ([HttpPost request], bindE (post request) content_text))"

definition custom_request_to ::
  "llm_config \<Rightarrow> string \<Rightarrow> string \<Rightarrow> string \<Rightarrow> jsval list \<Rightarrow> http_request" where
  "custom_request_to cfg ep sysPrompt userMessage history =
     \<lparr> url = ep,
       body = Custom \<lparr> c_model = model cfg,
                       system_prompt = sysPrompt,
                       user_message = userMessage,
                       chat_history = history,
                       c_max_tokens = number_or (maxTokens cfg) 1000,
                       c_temperature = number_or (temperature cfg) (7 / 10) \<rparr>,
       headers = bearer_headers cfg \<rparr>"

definition custom_text :: "jsval \<Rightarrow> js_error + llm_response" where
  \<comment> \<open>\<open>{ text: data.text || data.response || data.content, usage: data.usage }\<close>; the
      operands after the first are read only when the ones before are falsy, and cannot
      throw once \<open>data.text\<close> did not.\<close>
  "custom_text data =
     bindE (getProp data ''text'') (\<lambda>t.
     Inr \<lparr> resp_text = js_or (js_or t (optChain data ''response'')) (optChain data ''content''),
           resp_usage = optChain data ''usage'' \<rparr>)"

definition callCustomApi ::
  "llm_config \<Rightarrow> http \<Rightarrow> string \<Rightarrow> string \<Rightarrow> jsval list
     \<Rightarrow> event list \<times> (js_error + llm_response)" where
  "callCustomApi cfg post sysPrompt userMessage history =
     rethrow_logged ''Custom API error: ''
       (case endpoint cfg of
          None \<Rightarrow> ([], Inl (Error ''Custom API endpoint is required but not provided''))
        | Some ep \<Rightarrow>
            if ep = [] then ([], Inl (Error ''Custom API endpoint is required but not provided''))
            else
              (let request = custom_request_to cfg ep sysPrompt userMessage history
               in ([HttpPost request], bindE (post request) custom_text)))"

definition fallback :: string where
  "fallback = ''I'm sorry, I'm having trouble processing your request right now. Please try again later.''"

definition dispatch ::
  "llm_config \<Rightarrow> http \<Rightarrow> string \<Rightarrow> string \<Rightarrow> jsval list
     \<Rightarrow> event list \<times> (js_error + llm_response)" where
  \<comment> \<open>The \<open>switch (provider)\<close> of \<open>generateResponse\<close>.\<close>
  "dispatch cfg post sysPrompt userMessage history =
     (if provider cfg = ''grok'' then callGrokApi cfg post sysPrompt userMessage history
      else if provider cfg = ''openai'' then callOpenAiApi cfg post sysPrompt userMessage history
      else if provider cfg = ''anthropic'' then callAnthropicApi cfg post sysPrompt userMessage history
      else if provider cfg = ''custom'' then callCustomApi cfg post sysPrompt userMessage history
      else ([], Inl (Error (''Unsupported LLM provider: '' @ provider cfg))))"

definition generateResponse_try ::
  "llm_config \<Rightarrow> personality_config \<Rightarrow> json_stringify \<Rightarrow> http \<Rightarrow> string \<Rightarrow> jsval list
     \<Rightarrow> event list \<times> (js_error + jsval)" where
  \<comment> \<open>The body of the \<open>try\<close> block of \<open>generateResponse\<close>.\<close>
  "generateResponse_try cfg pers stringify post userMessage history =
     (let sysPrompt = string_or (systemPrompt cfg) (generateSystemPrompt pers);
          called = dispatch cfg post sysPrompt userMessage history
      in case snd called of
           Inl e \<Rightarrow> (fst called, Inl e)
         | Inr response \<Rightarrow>
             (fst called @
                (if truthy (resp_usage response)
                 then [LogDebug (''Token usage: '' @ stringify (resp_usage response) 0)]
                 else []),
              Inr (resp_text response)))"

definition generateResponse ::
  "llm_config \<Rightarrow> personality_config \<Rightarrow> json_stringify \<Rightarrow> http \<Rightarrow> string \<Rightarrow> jsval list
     \<Rightarrow> event list \<times> jsval" where
  "generateResponse cfg pers stringify post userMessage history =
     (let tried = generateResponse_try cfg pers stringify post userMessage history
      in case snd tried of
           Inl e \<Rightarrow>
             (fst tried @ [LogError (''Error generating response: '' @ message e)], JStr fallback)
         | Inr t \<Rightarrow> (fst tried, t))"

section \<open>BotService: the message router\<close>

text \<open>
  The Telegraf context of one update. \<open>message_text\<close> is \<open>None\<close> when the update has no
  message or the message has no text. The two transport calls are requests to Telegram
  and may reject: \<open>reply_result ctx n v\<close> is the outcome of the \<open>n\<close>-th call of
  \<open>ctx.reply\<close> made while handling this update (counting from 0) when it is given
  \<open>v\<close>, and \<open>sendChatAction_result\<close> that of \<open>ctx.telegram.sendChatAction\<close>; \<open>None\<close>
  means the call resolved. The router handles one update at a time here; interleaving
  of two updates at an \<open>await\<close> is not modelled.
\<close>

record ctx =
  message_text :: "string option"
  chat_id :: int
  from_id :: int
  reply_result :: "nat \<Rightarrow> jsval \<Rightarrow> js_error option"
  sendChatAction_result :: "string \<Rightarrow> string \<Rightarrow> js_error option"

text \<open>
  \<open>llmService.generateResponse\<close> as the router sees it: a call that yields a value or
  throws, with the events it caused. \<open>llm_service\<close> is the one the application wires in.
\<close>

type_synonym generator = "string \<Rightarrow> jsval list \<Rightarrow> event list \<times> (js_error + jsval)"

definition llm_service ::
  "llm_config \<Rightarrow> personality_config \<Rightarrow> json_stringify \<Rightarrow> http \<Rightarrow> generator" where
  "llm_service cfg pers stringify post userMessage history =
     (let r = generateResponse cfg pers stringify post userMessage history
      in (fst r, Inr (snd r)))"

text \<open>The outcome of a handler: the events, the store afterwards, and the error the
  returned promise rejects with, if any.\<close>

type_synonym outcome = "event list \<times> bot_state \<times> js_error option"

definition events_of :: "outcome \<Rightarrow> event list" where
  "events_of r = fst r"

definition state_of :: "outcome \<Rightarrow> bot_state" where
  "state_of r = fst (snd r)"

definition escaped :: "outcome \<Rightarrow> js_error option" where
  "escaped r = snd (snd r)"

fun is_generate :: "event \<Rightarrow> bool" where
  "is_generate (Generate m h) = True"
| "is_generate e = False"

definition replies :: "event list \<Rightarrow> jsval list" where
  \<comment> \<open>What \<open>ctx.reply\<close> was called with, in order.\<close>
  "replies evs = concat (map (\<lambda>e. case e of Reply v \<Rightarrow> [v] | _ \<Rightarrow> []) evs)"

definition reset_reply :: string where
  "reset_reply = ''I've reset our conversation history.''"

definition apology :: string where
  "apology = ''I'm sorry, I encountered an error while processing your message.''"

definition handleCustomCommand ::
  "settings_config \<Rightarrow> personality_config \<Rightarrow> llm_config \<Rightarrow> json_stringify
     \<Rightarrow> bot_state \<Rightarrow> ctx \<Rightarrow> string \<Rightarrow> outcome" where
  "handleCustomCommand settings pers cfg stringify st c txt =
     (case commandPrefix settings of
        None \<Rightarrow> ([], st, Some (cannot_read ''undefined'' ''length''))
      | Some prefix \<Rightarrow>
          (let command = trim (substring txt (length prefix))
           in if toLowerCase command = ''reset'' then
                (let chatId = toString_int (chat_id c)
                 in ([Reply (JStr reset_reply)],
                     st\<lparr> chatHistory := (chatHistory st)(chatId \<mapsto> []) \<rparr>,
                     reply_result c 0 (JStr reset_reply)))
              else if toLowerCase command = ''debug'' then
                (let debugInfo =
                       JObj [(''chatId'', JNum (chat_id c)),
                             (''userId'', JNum (from_id c)),
                             (''historyLength'',
                                JNum (case chatHistory st (toString_int (chat_id c)) of
                                        None \<Rightarrow> 0 | Some h \<Rightarrow> int (length h))),
                             (''botName'', JStr (name pers)),
                             (''llmProvider'', JStr (provider cfg))];
                     out = JStr (''Debug information:'' @ [CHR 0x0A] @ stringify debugInfo 2)
                 in ([Reply out], st, reply_result c 0 out))
              else
                (let out = JStr (''Unknown command: '' @ command)
                 in ([Reply out], st, reply_result c 0 out))))"

definition BotService_generateResponse ::
  "generator \<Rightarrow> bot_state \<Rightarrow> string \<Rightarrow> string \<Rightarrow> event list \<times> (js_error + jsval)" where
  \<comment> \<open>\<open>BotService.generateResponse\<close>; the call of the generator is recorded.\<close>
  "BotService_generateResponse gen st chatId userMessage =
     (let history = getChatHistory st chatId;
          r = gen userMessage history
      in (Generate userMessage history # fst r, snd r))"

definition respond :: "settings_config \<Rightarrow> generator \<Rightarrow> bot_state \<Rightarrow> ctx \<Rightarrow> string \<Rightarrow> string \<Rightarrow> outcome" where
  \<comment> \<open>The body of the \<open>try\<close> block of \<open>handleMessage\<close>.\<close>
  "respond settings gen st c chatId messageText =
     (let g = BotService_generateResponse gen st chatId messageText
      in case snd g of
           Inl e \<Rightarrow> (fst g, st, Some e)
         | Inr response \<Rightarrow>
             (let waited =
                    (case responseDelay settings of
                       None \<Rightarrow> []
                     | Some d \<Rightarrow> if d \<noteq> 0 \<and> d > 0 then [Delay d] else [])
              in case reply_result c 0 response of
                   Some e \<Rightarrow> (fst g @ waited @ [Reply response], st, Some e)
                 | None \<Rightarrow>
                     (fst g @ waited @ [Reply response],
                      addToChatHistory st chatId response, None)))"

definition blocked_unauthorized :: "settings_config \<Rightarrow> string \<Rightarrow> bool" where
  \<comment> \<open>\<open>settings.allowedUsers?.length && !settings.allowedUsers.includes(userId)\<close>\<close>
  "blocked_unauthorized settings userId =
     (case allowedUsers settings of
        None \<Rightarrow> False
      | Some users \<Rightarrow> users \<noteq> [] \<and> userId \<notin> set users)"

definition blocked_blacklisted :: "settings_config \<Rightarrow> string \<Rightarrow> bool" where
  \<comment> \<open>\<open>settings.blacklistedUsers?.includes(userId)\<close>\<close>
  "blocked_blacklisted settings userId =
     (case blacklistedUsers settings of
        None \<Rightarrow> False
      | Some users \<Rightarrow> userId \<in> set users)"

definition is_command :: "settings_config \<Rightarrow> string \<Rightarrow> bool" where
  \<comment> \<open>\<open>settings.commandPrefix && messageText.startsWith(settings.commandPrefix)\<close>\<close>
  "is_command settings messageText =
     (case commandPrefix settings of
        None \<Rightarrow> False
      | Some prefix \<Rightarrow> prefix \<noteq> [] \<and> startsWith messageText prefix)"

definition handleMessage ::
  "settings_config \<Rightarrow> personality_config \<Rightarrow> llm_config \<Rightarrow> json_stringify \<Rightarrow> generator
     \<Rightarrow> bot_state \<Rightarrow> ctx \<Rightarrow> outcome" where
  "handleMessage settings pers cfg stringify gen st c =
     (case message_text c of
        None \<Rightarrow> ([], st, None)
      | Some messageText \<Rightarrow>
          (let chatId = toString_int (chat_id c);
               userId = toString_int (from_id c)
           in if blocked_unauthorized settings userId then
                ([LogWarn (''Blocked message from unauthorized user: '' @ userId)], st, None)
              else if blocked_blacklisted settings userId then
                ([LogWarn (''Blocked message from blacklisted user: '' @ userId)], st, None)
              else if is_command settings messageText then
                handleCustomCommand settings pers cfg stringify st c messageText
              else
                (let st1 = addToChatHistory st chatId (JStr messageText)
                 in case sendChatAction_result c chatId ''typing'' of
                      Some e \<Rightarrow> ([SendChatAction chatId ''typing''], st1, Some e)
                    | None \<Rightarrow>
                        (let tried = respond settings gen st1 c chatId messageText
                         in case escaped tried of
                              None \<Rightarrow>
                                (SendChatAction chatId ''typing'' # events_of tried,
                                 state_of tried, None)
                            | Some e \<Rightarrow>
                                (SendChatAction chatId ''typing'' # events_of tried
                                   @ [LogError (''Error handling message: '' @ message e),
                                      Reply (JStr apology)],
                                 state_of tried,
                                 reply_result c (length (replies (events_of tried)))
                                   (JStr apology))))))"

section \<open>Reading the trace and the requests\<close>

definition posted :: "event list \<Rightarrow> http_request list" where
  \<comment> \<open>The requests given to \<open>axios.post\<close>, in order.\<close>
  "posted evs = concat (map (\<lambda>e. case e of HttpPost r \<Rightarrow> [r] | _ \<Rightarrow> []) evs)"

fun chat_of :: "payload \<Rightarrow> chat_request option" where
  "chat_of (Chat r) = Some r"
| "chat_of (Custom r) = None"

fun sent_max_tokens :: "payload \<Rightarrow> int" where
  "sent_max_tokens (Chat r) = max_tokens r"
| "sent_max_tokens (Custom r) = c_max_tokens r"

fun sent_temperature :: "payload \<Rightarrow> rat" where
  "sent_temperature (Chat r) = r_temperature r"
| "sent_temperature (Custom r) = c_temperature r"

definition or_zero :: "jsval \<Rightarrow> int" where
  \<comment> \<open>A token count, with 0 for one that is missing.\<close>
  "or_zero v = (case v of JNum n \<Rightarrow> n | _ \<Rightarrow> 0)"

definition number_or_missing :: "jsval \<Rightarrow> bool" where
  \<comment> \<open>A token count as a backend sends it: a number, or absent (\<open>undefined\<close>, \<open>null\<close>).\<close>
  "number_or_missing v =
     (case v of JNum n \<Rightarrow> True | JUndefined \<Rightarrow> True | JNull \<Rightarrow> True | _ \<Rightarrow> False)"

definition content_0_text :: "jsval \<Rightarrow> js_error + jsval" where
  \<comment> \<open>\<open>data.content[0].text\<close>\<close>
  "content_0_text data =
     bindE (getProp data ''content'') (\<lambda>blocks.
     bindE (getIndex blocks 0) (\<lambda>block. getProp block ''text''))"

text \<open>The configuration that the unit tests of the repository use.\<close>

definition test_llm_config :: llm_config where
  "test_llm_config =
     \<lparr> provider = ''openai'', apiKey = ''test-api-key'', model = Some ''gpt-4'',
       endpoint = None, maxTokens = Some 1000, temperature = Some (7 / 10),
       systemPrompt = None \<rparr>"

definition test_personality :: personality_config where
  "test_personality =
     \<lparr> name = ''TestBot'', description = ''A test bot for unit testing'',
       traits = [''helpful'', ''friendly''], tone = ''casual'', responseStyle = ''concise'' \<rparr>"

definition no_stringify :: json_stringify where
  \<comment> \<open>A stand-in for \<open>JSON.stringify\<close> where its output does not matter.\<close>
  "no_stringify v n = []"

text \<open>The settings and the context that the unit tests of the router use.\<close>

definition test_settings :: settings_config where
  "test_settings =
     \<lparr> logLevel = ''info'', allowedUsers = Some [], blacklistedUsers = Some [],
       commandPrefix = Some ''/'', responseDelay = Some 0 \<rparr>"

definition test_ctx :: ctx where
  "test_ctx =
     \<lparr> message_text = Some ''Hello bot'', chat_id = 123456, from_id = 789012,
       reply_result = (\<lambda>n v. None), sendChatAction_result = (\<lambda>chatId action. None) \<rparr>"

section \<open>The conversation store is bounded and keeps the most recent turns\<close>

lemma slice_last_append_idem:
  "slice_last n (slice_last n xs @ ys) = slice_last n (xs @ ys)"
proof (cases "length xs \<le> n")
  case True
  then show ?thesis by (simp add: slice_last_def)
next
  case False
  then show ?thesis
    by (simp add: slice_last_def add.commute)
qed

lemma getChatHistory_add:
  "getChatHistory (addToChatHistory st c m) c' =
     (if c' = c then slice_last (maxHistoryLength * 2) (getChatHistory st c @ [m])
      else getChatHistory st c')"
  by (auto simp: getChatHistory_def addToChatHistory_def Let_def slice_last_def
           split: option.splits)

lemma appended_to_Cons:
  "appended_to c ((c', m) # ops) = (if c' = c then m # appended_to c ops else appended_to c ops)"
  by (simp add: appended_to_def)

lemma getChatHistory_appends:
  "getChatHistory (appends st ops) c =
     (if appended_to c ops = [] then getChatHistory st c
      else slice_last (maxHistoryLength * 2) (getChatHistory st c @ appended_to c ops))"
proof (induction ops arbitrary: st)
  case Nil
  then show ?case by (simp add: appended_to_def)
next
  case (Cons op ops)
  obtain c' m where op: "op = (c', m)" by (cases op)
  show ?case
  proof (cases "c' = c")
    case False
    then show ?thesis using Cons.IH [of "addToChatHistory st c' m"] op
      by (simp add: appended_to_Cons getChatHistory_add)
  next
    case True
    show ?thesis
    proof (cases "appended_to c ops = []")
      case True
      with \<open>c' = c\<close> show ?thesis using Cons.IH [of "addToChatHistory st c' m"] op
        by (simp add: appended_to_Cons getChatHistory_add)
    next
      case False
      have "slice_last (maxHistoryLength * 2)
              (slice_last (maxHistoryLength * 2) (getChatHistory st c @ [m]) @ appended_to c ops)
            = slice_last (maxHistoryLength * 2) ((getChatHistory st c @ [m]) @ appended_to c ops)"
        by (rule slice_last_append_idem)
      with False \<open>c' = c\<close> show ?thesis using Cons.IH [of "addToChatHistory st c' m"] op
        by (simp add: appended_to_Cons getChatHistory_add)
    qed
  qed
qed

lemma getChatHistory_initial: "getChatHistory initial_state c = []"
  by (simp add: getChatHistory_def initial_state_def)

text \<open>
  C3. Starting from the empty store, after any sequence of \<open>addToChatHistory\<close> calls (to
  any chats, interleaved), the history of every chat has at most
  \<open>2 * maxHistoryLength = 20\<close> entries, and it is exactly the last 20 of the entries
  appended to that chat, in the order they were appended (all of them while there are at
  most 20); once more than 20 were appended it has exactly 20 entries.
\<close>

theorem history_bounded_and_recent:
  "length (getChatHistory (appends initial_state ops) c) \<le> 2 * maxHistoryLength
   \<and> 2 * maxHistoryLength = 20
   \<and> getChatHistory (appends initial_state ops) c
       = drop (length (appended_to c ops) - 20) (appended_to c ops)
   \<and> (20 < length (appended_to c ops)
        \<longrightarrow> length (getChatHistory (appends initial_state ops) c) = 20)"
  by (auto simp: getChatHistory_appends getChatHistory_initial slice_last_def
                 maxHistoryLength_def)

theorem history_bounded_and_recent_witness:
  "20 < length (appended_to ''42''
             (map (\<lambda>i. (''42'', JNum (int i))) [0..<22] @ [(''7'', JStr ''x'')]))
   \<and> getChatHistory
        (appends initial_state
           (map (\<lambda>i. (''42'', JNum (int i))) [0..<22] @ [(''7'', JStr ''x'')])) ''42''
       = map (\<lambda>i. JNum (int i)) [2..<22]"
  using history_bounded_and_recent
          [of "map (\<lambda>i. (''42'', JNum (int i))) [0..<22] @ [(''7'', JStr ''x'')]" "''42''"]
  by (simp add: upt_rec appended_to_def)

section \<open>LlmService: requests and responses\<close>

lemma formatChatHistory_loop_eq:
  "formatChatHistory_loop i h acc =
     acc @ map (\<lambda>j. \<lparr> role = (if j mod 2 = 0 then ''user'' else ''assistant''), content = h ! j \<rparr>)
             [i..<length h]"
proof (induction i h acc rule: formatChatHistory_loop.induct)
  case (1 i h acc)
  show ?case
  proof (cases "i < length h")
    case True
    then show ?thesis
      using "1.IH" by (subst formatChatHistory_loop.simps) (simp add: upt_conv_Cons)
  next
    case False
    then show ?thesis
      by (subst formatChatHistory_loop.simps) simp
  qed
qed

lemma formatChatHistory_eq:
  "formatChatHistory h =
     map (\<lambda>j. \<lparr> role = (if j mod 2 = 0 then ''user'' else ''assistant''), content = h ! j \<rparr>)
       [0..<length h]"
  by (simp add: formatChatHistory_def formatChatHistory_loop_eq)

lemma formatChatHistory_content: "map content (formatChatHistory h) = h"
  by (simp add: formatChatHistory_eq o_def map_nth)

lemma posted_rethrow: "posted (fst (rethrow_logged tag r)) = posted (fst r)"
  by (cases r) (auto simp: rethrow_logged_def posted_def split: sum.splits)

lemma posted_callGrokApi: "posted (fst (callGrokApi cfg post sys m h)) = [grok_request cfg sys m h]"
  by (simp add: callGrokApi_def posted_rethrow Let_def) (simp add: posted_def)

lemma posted_callOpenAiApi: "posted (fst (callOpenAiApi cfg post sys m h)) = [openai_request cfg sys m h]"
  by (simp add: callOpenAiApi_def posted_rethrow Let_def) (simp add: posted_def)

lemma posted_callAnthropicApi:
  "posted (fst (callAnthropicApi cfg post sys m h)) = [anthropic_request cfg sys m h]"
  by (simp add: callAnthropicApi_def posted_rethrow Let_def) (simp add: posted_def)

lemma posted_callCustomApi:
  "posted (fst (callCustomApi cfg post sys m h)) =
     (case endpoint cfg of None \<Rightarrow> []
      | Some ep \<Rightarrow> if ep = [] then [] else [custom_request_to cfg ep sys m h])"
  by (simp add: callCustomApi_def posted_rethrow Let_def split: option.splits) (simp add: posted_def)

text \<open>
  C6 (as amended). \<open>formatChatHistory\<close> keeps the length and the order of the history and
  gives the entry at index \<open>i\<close> the role \<open>user\<close> when \<open>i\<close> is even and \<open>assistant\<close> when it
  is odd, with the entry itself as content. The Grok, OpenAI and Anthropic adapters each
  post one request whose \<open>messages\<close> are the system prompt, the formatted history, and the
  new user message last with role \<open>user\<close>; the history \<open>[a, b, c]\<close> becomes
  \<open>[user:a, assistant:b, user:c]\<close>.
\<close>

theorem history_to_messages:
  "length (formatChatHistory h) = length h
   \<and> (\<forall>i < length h.
         formatChatHistory h ! i
           = \<lparr> role = (if even i then ''user'' else ''assistant''), content = h ! i \<rparr>)
   \<and> map content (formatChatHistory h) = h
   \<and> posted (fst (callGrokApi cfg post sys m h)) = [grok_request cfg sys m h]
   \<and> posted (fst (callOpenAiApi cfg post sys m h)) = [openai_request cfg sys m h]
   \<and> posted (fst (callAnthropicApi cfg post sys m h)) = [anthropic_request cfg sys m h]
   \<and> (\<forall>req \<in> {grok_request cfg sys m h, openai_request cfg sys m h,
                 anthropic_request cfg sys m h}.
         map_option messages (chat_of (body req))
           = Some (\<lparr> role = ''system'', content = JStr sys \<rparr> # formatChatHistory h
                   @ [\<lparr> role = ''user'', content = JStr m \<rparr>]))
   \<and> formatChatHistory [JStr ''a'', JStr ''b'', JStr ''c'']
       = [\<lparr> role = ''user'', content = JStr ''a'' \<rparr>,
          \<lparr> role = ''assistant'', content = JStr ''b'' \<rparr>,
          \<lparr> role = ''user'', content = JStr ''c'' \<rparr>]"
proof -
  have "formatChatHistory [JStr ''a'', JStr ''b'', JStr ''c'']
       = [\<lparr> role = ''user'', content = JStr ''a'' \<rparr>,
          \<lparr> role = ''assistant'', content = JStr ''b'' \<rparr>,
          \<lparr> role = ''user'', content = JStr ''c'' \<rparr>]"
    by (simp add: formatChatHistory_eq upt_rec)
  moreover have "\<forall>i < length h.
         formatChatHistory h ! i
           = \<lparr> role = (if even i then ''user'' else ''assistant''), content = h ! i \<rparr>"
    by (simp add: formatChatHistory_eq even_iff_mod_2_eq_zero)
  moreover have "length (formatChatHistory h) = length h"
    by (simp add: formatChatHistory_eq)
  moreover have "\<forall>req \<in> {grok_request cfg sys m h, openai_request cfg sys m h,
                 anthropic_request cfg sys m h}.
         map_option messages (chat_of (body req))
           = Some (\<lparr> role = ''system'', content = JStr sys \<rparr> # formatChatHistory h
                   @ [\<lparr> role = ''user'', content = JStr m \<rparr>])"
    by (simp add: grok_request_def openai_request_def anthropic_request_def chat_messages_def)
  ultimately show ?thesis
    by (simp only: formatChatHistory_content posted_callGrokApi posted_callOpenAiApi
          posted_callAnthropicApi simp_thms)
qed


theorem history_to_messages_witness:
  "(1::nat) < length [JStr ''a'', JStr ''b'', JStr ''c'']
   \<and> formatChatHistory [JStr ''a'', JStr ''b'', JStr ''c''] ! 1
       = \<lparr> role = ''assistant'', content = JStr ''b'' \<rparr>
   \<and> grok_request test_llm_config ''sys'' ''d'' [JStr ''a'', JStr ''b'', JStr ''c'']
       \<in> {grok_request test_llm_config ''sys'' ''d'' [JStr ''a'', JStr ''b'', JStr ''c''],
          openai_request test_llm_config ''sys'' ''d'' [JStr ''a'', JStr ''b'', JStr ''c''],
          anthropic_request test_llm_config ''sys'' ''d'' [JStr ''a'', JStr ''b'', JStr ''c'']}
   \<and> map_option messages
         (chat_of (body (grok_request test_llm_config ''sys'' ''d''
                           [JStr ''a'', JStr ''b'', JStr ''c''])))
       = Some [\<lparr> role = ''system'', content = JStr ''sys'' \<rparr>,
               \<lparr> role = ''user'', content = JStr ''a'' \<rparr>,
               \<lparr> role = ''assistant'', content = JStr ''b'' \<rparr>,
               \<lparr> role = ''user'', content = JStr ''c'' \<rparr>,
               \<lparr> role = ''user'', content = JStr ''d'' \<rparr>]"
proof -
  note t = history_to_messages
          [of "[JStr ''a'', JStr ''b'', JStr ''c'']" test_llm_config
              "\<lambda>req. Inl (Error ''API request failed'')" "''sys''" "''d''"]
  have len: "(1::nat) < length [JStr ''a'', JStr ''b'', JStr ''c'']"
    by simp
  from t have "\<forall>i < length [JStr ''a'', JStr ''b'', JStr ''c''].
      formatChatHistory [JStr ''a'', JStr ''b'', JStr ''c''] ! i
        = \<lparr> role = (if even i then ''user'' else ''assistant''),
            content = [JStr ''a'', JStr ''b'', JStr ''c''] ! i \<rparr>"
    by (elim conjE)
  with len have second: "formatChatHistory [JStr ''a'', JStr ''b'', JStr ''c''] ! 1
        = \<lparr> role = (if even (1::nat) then ''user'' else ''assistant''),
            content = [JStr ''a'', JStr ''b'', JStr ''c''] ! 1 \<rparr>"
    by blast
  from t have three: "formatChatHistory [JStr ''a'', JStr ''b'', JStr ''c'']
       = [\<lparr> role = ''user'', content = JStr ''a'' \<rparr>,
          \<lparr> role = ''assistant'', content = JStr ''b'' \<rparr>,
          \<lparr> role = ''user'', content = JStr ''c'' \<rparr>]"
    by (elim conjE)
  have mem: "grok_request test_llm_config ''sys'' ''d'' [JStr ''a'', JStr ''b'', JStr ''c'']
       \<in> {grok_request test_llm_config ''sys'' ''d'' [JStr ''a'', JStr ''b'', JStr ''c''],
          openai_request test_llm_config ''sys'' ''d'' [JStr ''a'', JStr ''b'', JStr ''c''],
          anthropic_request test_llm_config ''sys'' ''d'' [JStr ''a'', JStr ''b'', JStr ''c'']}"
    by simp
  from t have "\<forall>req \<in> {grok_request test_llm_config ''sys'' ''d'' [JStr ''a'', JStr ''b'', JStr ''c''],
          openai_request test_llm_config ''sys'' ''d'' [JStr ''a'', JStr ''b'', JStr ''c''],
          anthropic_request test_llm_config ''sys'' ''d'' [JStr ''a'', JStr ''b'', JStr ''c'']}.
         map_option messages (chat_of (body req))
           = Some (\<lparr> role = ''system'', content = JStr ''sys'' \<rparr>
                   # formatChatHistory [JStr ''a'', JStr ''b'', JStr ''c'']
                   @ [\<lparr> role = ''user'', content = JStr ''d'' \<rparr>])"
    by (elim conjE)
  with mem have "map_option messages
         (chat_of (body (grok_request test_llm_config ''sys'' ''d''
                           [JStr ''a'', JStr ''b'', JStr ''c''])))
       = Some (\<lparr> role = ''system'', content = JStr ''sys'' \<rparr>
                   # formatChatHistory [JStr ''a'', JStr ''b'', JStr ''c'']
                   @ [\<lparr> role = ''user'', content = JStr ''d'' \<rparr>])"
    by blast
  with second len mem show ?thesis
    by (simp add: three)
qed

text \<open>
  The custom adapter does not call \<open>formatChatHistory\<close>: its request has no \<open>messages\<close>;
  it carries the history as it is, without roles, and the user message in a field of its
  own.
\<close>

theorem custom_adapter_sends_raw_history:
  "posted (fst (callCustomApi
      (test_llm_config\<lparr> provider := ''custom'', model := Some ''custom-model'',
                        endpoint := Some ''https://custom-api.example.com'' \<rparr>)
      (\<lambda>req. Inr (JObj [(''text'', JStr ''ok'')]))
      ''sys'' ''d'' [JStr ''a'', JStr ''b'', JStr ''c'']))
   = [\<lparr> url = ''https://custom-api.example.com'',
        body = Custom \<lparr> c_model = Some ''custom-model'', system_prompt = ''sys'',
                        user_message = ''d'',
                        chat_history = [JStr ''a'', JStr ''b'', JStr ''c''],
                        c_max_tokens = 1000, c_temperature = 7 / 10 \<rparr>,
        headers = [(''Authorization'', ''Bearer test-api-key''),
                   (''Content-Type'', ''application/json'')] \<rparr>]
   \<and> map (\<lambda>req. chat_of (body req))
         (posted (fst (callCustomApi
            (test_llm_config\<lparr> provider := ''custom'', model := Some ''custom-model'',
                              endpoint := Some ''https://custom-api.example.com'' \<rparr>)
            (\<lambda>req. Inr (JObj [(''text'', JStr ''ok'')]))
            ''sys'' ''d'' [JStr ''a'', JStr ''b'', JStr ''c''])))
       = [None]"
  by (simp add: posted_callCustomApi custom_request_to_def number_or_def bearer_headers_def
        test_llm_config_def)

lemma total_tokens:
  "number_or_missing i \<Longrightarrow> number_or_missing o' \<Longrightarrow>
   js_plus (js_or i (JNum 0)) (js_or o' (JNum 0)) = JNum (or_zero i + or_zero o')"
  by (auto simp: number_or_missing_def or_zero_def js_plus_def js_or_def split: jsval.splits)

lemma snd_rethrow: "snd (rethrow_logged tag r) = snd r"
  by (cases r) (auto simp: rethrow_logged_def split: sum.splits)

lemma content_text_usage:
  "content_text data = Inr r \<Longrightarrow> resp_usage r = anthropic_usage (optChain data ''usage'')"
  by (auto simp: content_text_def bindE_def optChain_def split: sum.splits)

lemma content_text_eq:
  "content_text data =
     (case content_0_text data of
        Inl e \<Rightarrow> Inl e
      | Inr t \<Rightarrow> Inr \<lparr> resp_text = t, resp_usage = anthropic_usage (optChain data ''usage'') \<rparr>)"
proof (cases "getProp data ''content''")
  case (Inl e)
  then show ?thesis by (simp add: content_text_def content_0_text_def bindE_def)
next
  case (Inr blocks)
  then have nn: "\<exists>u. getProp data ''usage'' = Inr u \<and> optChain data ''usage'' = u"
    by (cases data) (simp_all add: optChain_def)
  then obtain u where u: "getProp data ''usage'' = Inr u" "optChain data ''usage'' = u" by blast
  show ?thesis
    using Inr u
    by (simp add: content_text_def content_0_text_def bindE_def split: sum.splits)
qed

text \<open>
  C8. For every body \<open>data\<close> that the Anthropic endpoint answers with, the adapter either
  throws, exactly when \<open>data.content[0].text\<close> cannot be read, or returns that text together
  with the usage \<open>promptTokens = data.usage?.input_tokens\<close>,
  \<open>completionTokens = data.usage?.output_tokens\<close> and
  \<open>totalTokens = (input_tokens || 0) + (output_tokens || 0)\<close>, which is the sum of the two
  counts with 0 for a missing one whenever the counts are numbers or missing
  (\<open>undefined\<close> or \<open>null\<close>). The adapter called with a response whose usage is
  \<open>{input_tokens: 10, output_tokens: 20}\<close> returns
  \<open>{promptTokens: 10, completionTokens: 20, totalTokens: 30}\<close>, and called with a response
  without \<open>usage\<close> it returns
  \<open>{promptTokens: undefined, completionTokens: undefined, totalTokens: 0}\<close>.
\<close>

theorem anthropic_usage_mapping:
  assumes "post (anthropic_request cfg sys m h) = Inr data"
  shows "snd (callAnthropicApi cfg post sys m h)
           = (case content_0_text data of
                Inl e \<Rightarrow> Inl e
              | Inr t \<Rightarrow>
                  Inr \<lparr> resp_text = t,
                        resp_usage =
                          JObj [(''promptTokens'', optChain (optChain data ''usage'') ''input_tokens''),
                                (''completionTokens'', optChain (optChain data ''usage'') ''output_tokens''),
                                (''totalTokens'',
                                   js_plus (js_or (optChain (optChain data ''usage'') ''input_tokens'') (JNum 0))
                                           (js_or (optChain (optChain data ''usage'') ''output_tokens'') (JNum 0)))] \<rparr>)
       \<and> (number_or_missing (optChain (optChain data ''usage'') ''input_tokens'')
            \<and> number_or_missing (optChain (optChain data ''usage'') ''output_tokens'')
          \<longrightarrow> js_plus (js_or (optChain (optChain data ''usage'') ''input_tokens'') (JNum 0))
                      (js_or (optChain (optChain data ''usage'') ''output_tokens'') (JNum 0))
               = JNum (or_zero (optChain (optChain data ''usage'') ''input_tokens'')
                       + or_zero (optChain (optChain data ''usage'') ''output_tokens'')))
       \<and> snd (callAnthropicApi test_llm_config
                (\<lambda>req. Inr (JObj [(''content'', JArr [JObj [(''text'', JStr ''Hi'')]]),
                                   (''usage'', JObj [(''input_tokens'', JNum 10),
                                                     (''output_tokens'', JNum 20)])]))
                ''You are a helpful assistant'' ''Hello'' [JStr ''Previous message''])
           = Inr \<lparr> resp_text = JStr ''Hi'',
                   resp_usage = JObj [(''promptTokens'', JNum 10), (''completionTokens'', JNum 20),
                                      (''totalTokens'', JNum 30)] \<rparr>
       \<and> snd (callAnthropicApi test_llm_config
                (\<lambda>req. Inr (JObj [(''content'', JArr [JObj [(''text'', JStr ''Hi'')]])]))
                ''You are a helpful assistant'' ''Hello'' [JStr ''Previous message''])
           = Inr \<lparr> resp_text = JStr ''Hi'',
                   resp_usage = JObj [(''promptTokens'', JUndefined),
                                      (''completionTokens'', JUndefined),
                                      (''totalTokens'', JNum 0)] \<rparr>"
proof -
  have call: "snd (callAnthropicApi c p s u v) = bindE (p (anthropic_request c s u v)) content_text"
    for c p s u v
    by (simp add: callAnthropicApi_def snd_rethrow Let_def)
  have 1: "snd (callAnthropicApi cfg post sys m h) = content_text data"
    using assms by (simp add: call bindE_def)
  have 3: "snd (callAnthropicApi test_llm_config
                (\<lambda>req. Inr (JObj [(''content'', JArr [JObj [(''text'', JStr ''Hi'')]]),
                                   (''usage'', JObj [(''input_tokens'', JNum 10),
                                                     (''output_tokens'', JNum 20)])]))
                ''You are a helpful assistant'' ''Hello'' [JStr ''Previous message''])
           = Inr \<lparr> resp_text = JStr ''Hi'',
                   resp_usage = JObj [(''promptTokens'', JNum 10), (''completionTokens'', JNum 20),
                                      (''totalTokens'', JNum 30)] \<rparr>"
    by (simp add: call bindE_def content_text_def anthropic_usage_def optChain_def js_or_def
          js_plus_def)
  have 4: "snd (callAnthropicApi test_llm_config
                (\<lambda>req. Inr (JObj [(''content'', JArr [JObj [(''text'', JStr ''Hi'')]])]))
                ''You are a helpful assistant'' ''Hello'' [JStr ''Previous message''])
           = Inr \<lparr> resp_text = JStr ''Hi'',
                   resp_usage = JObj [(''promptTokens'', JUndefined),
                                      (''completionTokens'', JUndefined),
                                      (''totalTokens'', JNum 0)] \<rparr>"
    by (simp add: call bindE_def content_text_def anthropic_usage_def optChain_def js_or_def
          js_plus_def)
  show ?thesis
    unfolding 3 4 1 content_text_eq
    by (simp add: anthropic_usage_def total_tokens split: sum.splits)
qed

theorem anthropic_usage_mapping_witness:
  "(\<lambda>req. Inr (JObj [(''content'', JArr [JObj [(''text'', JStr ''This is a response from Anthropic'')]]),
                     (''usage'', JObj [(''input_tokens'', JNum 100), (''output_tokens'', JNum 50)])]))
     (anthropic_request (test_llm_config\<lparr> provider := ''anthropic'' \<rparr>)
        ''You are a helpful assistant'' ''Hello, how are you?'' [JStr ''Previous message''])
     = (Inr (JObj [(''content'', JArr [JObj [(''text'', JStr ''This is a response from Anthropic'')]]),
                   (''usage'', JObj [(''input_tokens'', JNum 100), (''output_tokens'', JNum 50)])])
          :: js_error + jsval)
   \<and> snd (callAnthropicApi (test_llm_config\<lparr> provider := ''anthropic'' \<rparr>)
        (\<lambda>req. Inr (JObj [(''content'', JArr [JObj [(''text'', JStr ''This is a response from Anthropic'')]]),
                           (''usage'', JObj [(''input_tokens'', JNum 100), (''output_tokens'', JNum 50)])]))
        ''You are a helpful assistant'' ''Hello, how are you?'' [JStr ''Previous message''])
     = Inr \<lparr> resp_text = JStr ''This is a response from Anthropic'',
             resp_usage = JObj [(''promptTokens'', JNum 100), (''completionTokens'', JNum 50),
                                (''totalTokens'', JNum 150)] \<rparr>"
  using anthropic_usage_mapping
          [of "\<lambda>req. Inr (JObj [(''content'', JArr [JObj [(''text'', JStr ''This is a response from Anthropic'')]]),
                     (''usage'', JObj [(''input_tokens'', JNum 100), (''output_tokens'', JNum 50)])])"
              "test_llm_config\<lparr> provider := ''anthropic'' \<rparr>"
              "''You are a helpful assistant''" "''Hello, how are you?''" "[JStr ''Previous message'']"
              "JObj [(''content'', JArr [JObj [(''text'', JStr ''This is a response from Anthropic'')]]),
                     (''usage'', JObj [(''input_tokens'', JNum 100), (''output_tokens'', JNum 50)])]"]
  by (simp add: content_0_text_def bindE_def optChain_def js_or_def js_plus_def)


text \<open>
  C9. With no endpoint configured, \<open>callCustomApi\<close> throws
  \<open>Custom API endpoint is required but not provided\<close> and posts nothing, whatever the
  system prompt, the user message and the history are; with provider \<open>custom\<close>,
  \<open>generateResponse\<close> then posts nothing either and answers with the fallback.
\<close>

theorem custom_without_endpoint:
  assumes "endpoint cfg = None"
  shows "callCustomApi cfg post sys m h
           = ([LogError ''Custom API error: Custom API endpoint is required but not provided''],
              Inl (Error ''Custom API endpoint is required but not provided''))
         \<and> posted (fst (callCustomApi cfg post sys m h)) = []
         \<and> (provider cfg = ''custom'' \<longrightarrow>
              posted (fst (generateResponse cfg pers stringify post m h)) = []
              \<and> snd (generateResponse cfg pers stringify post m h) = JStr fallback)"
  using assms
  by (simp add: callCustomApi_def rethrow_logged_def posted_def generateResponse_def
        generateResponse_try_def dispatch_def Let_def)

theorem custom_without_endpoint_witness:
  "endpoint (test_llm_config\<lparr> provider := ''custom'' \<rparr>) = None
   \<and> provider (test_llm_config\<lparr> provider := ''custom'' \<rparr>) = ''custom''
   \<and> generateResponse (test_llm_config\<lparr> provider := ''custom'' \<rparr>) test_personality
        no_stringify (\<lambda>req. Inr (JObj [(''text'', JStr ''never read'')]))
        ''Hello'' [JStr ''Previous message'']
       = ([LogError ''Custom API error: Custom API endpoint is required but not provided'',
           LogError ''Error generating response: Custom API endpoint is required but not provided''],
          JStr fallback)"
  using custom_without_endpoint
          [of "test_llm_config\<lparr> provider := ''custom'' \<rparr>"
              "\<lambda>req. Inr (JObj [(''text'', JStr ''never read'')])"
              "string_or (systemPrompt (test_llm_config\<lparr> provider := ''custom'' \<rparr>))
                 (generateSystemPrompt test_personality)"
              "''Hello''" "[JStr ''Previous message'']" test_personality no_stringify]
  by (simp add: test_llm_config_def generateResponse_def generateResponse_try_def
        dispatch_def Let_def)

lemma posted_dispatch:
  "posted (fst (dispatch cfg post sys m h)) =
     (if provider cfg = ''grok'' then [grok_request cfg sys m h]
      else if provider cfg = ''openai'' then [openai_request cfg sys m h]
      else if provider cfg = ''anthropic'' then [anthropic_request cfg sys m h]
      else if provider cfg = ''custom'' then
        (case endpoint cfg of None \<Rightarrow> []
         | Some ep \<Rightarrow> if ep = [] then [] else [custom_request_to cfg ep sys m h])
      else [])"
  by (simp add: dispatch_def posted_callGrokApi posted_callOpenAiApi posted_callAnthropicApi
        posted_callCustomApi) (simp add: posted_def)

lemma in_posted_dispatch:
  assumes "req \<in> set (posted (fst (dispatch cfg post sys m h)))"
  shows "req = grok_request cfg sys m h \<or> req = openai_request cfg sys m h
         \<or> req = anthropic_request cfg sys m h
         \<or> (\<exists>ep. req = custom_request_to cfg ep sys m h)"
proof (cases "provider cfg = ''grok''")
  case True
  with assms show ?thesis by (simp add: posted_dispatch)
next
  case ng: False
  show ?thesis
  proof (cases "provider cfg = ''openai''")
    case True
    with assms ng show ?thesis by (simp add: posted_dispatch)
  next
    case no: False
    show ?thesis
    proof (cases "provider cfg = ''anthropic''")
      case True
      with assms ng no show ?thesis by (simp add: posted_dispatch)
    next
      case na: False
      show ?thesis
      proof (cases "provider cfg = ''custom''")
        case True
        with assms ng no na show ?thesis
          by (cases "endpoint cfg") (auto simp: posted_dispatch split: if_split_asm)
      next
        case False
        with assms ng no na show ?thesis by (simp add: posted_dispatch)
      qed
    qed
  qed
qed
lemma sent_numbers:
  assumes "req \<in> set (posted (fst (dispatch cfg post sys m h)))"
  shows "sent_max_tokens (body req) = number_or (maxTokens cfg) 1000
     \<and> sent_temperature (body req) = number_or (temperature cfg) (7 / 10)"
  using in_posted_dispatch [OF assms]
  by (auto simp: grok_request_def openai_request_def anthropic_request_def custom_request_to_def)

text \<open>
  Absent and non-zero values. In every request that the dispatch posts, for each of the
  four providers, \<open>max_tokens\<close> is 1000 when \<open>maxTokens\<close> is absent and \<open>temperature\<close>
  is 0.7 when \<open>temperature\<close> is absent, and a configured value other than 0 is sent as
  it is.
\<close>

theorem defaults_when_absent:
  assumes "req \<in> set (posted (fst (dispatch cfg post sys m h)))"
  shows "(maxTokens cfg = None \<longrightarrow> sent_max_tokens (body req) = 1000)
       \<and> (temperature cfg = None \<longrightarrow> sent_temperature (body req) = 7 / 10)
       \<and> (\<forall>n. maxTokens cfg = Some n \<and> n \<noteq> 0 \<longrightarrow> sent_max_tokens (body req) = n)
       \<and> (\<forall>t. temperature cfg = Some t \<and> t \<noteq> 0 \<longrightarrow> sent_temperature (body req) = t)"
  using sent_numbers [OF assms] by (auto simp: number_or_def)

theorem defaults_when_absent_witness:
  "openai_request (test_llm_config\<lparr> maxTokens := Some 256, temperature := None \<rparr>)
       ''You are a helpful assistant'' ''Hello'' []
     \<in> set (posted (fst (dispatch
             (test_llm_config\<lparr> maxTokens := Some 256, temperature := None \<rparr>)
             (\<lambda>req. Inl (Error ''API request failed''))
             ''You are a helpful assistant'' ''Hello'' [])))
   \<and> maxTokens (test_llm_config\<lparr> maxTokens := Some 256, temperature := None \<rparr>) = Some 256
   \<and> (256::int) \<noteq> 0
   \<and> temperature (test_llm_config\<lparr> maxTokens := Some 256, temperature := None \<rparr>) = None
   \<and> sent_max_tokens (body (openai_request
         (test_llm_config\<lparr> maxTokens := Some 256, temperature := None \<rparr>)
         ''You are a helpful assistant'' ''Hello'' [])) = 256
   \<and> sent_temperature (body (openai_request
         (test_llm_config\<lparr> maxTokens := Some 256, temperature := None \<rparr>)
         ''You are a helpful assistant'' ''Hello'' [])) = 7 / 10"
  using defaults_when_absent
          [of "openai_request (test_llm_config\<lparr> maxTokens := Some 256, temperature := None \<rparr>)
                 ''You are a helpful assistant'' ''Hello'' []"
              "test_llm_config\<lparr> maxTokens := Some 256, temperature := None \<rparr>"
              "\<lambda>req. Inl (Error ''API request failed'')"
              "''You are a helpful assistant''" "''Hello''" "[]"]
  by (simp add: posted_dispatch test_llm_config_def)

text \<open>
  C10. The claim has the configured values used whenever they are present, a configured
  \<open>temperature\<close> of 0 and a configured \<open>maxTokens\<close> of 0 included. The code does not do
  this: it defaults with \<open>||\<close>, which takes a configured 0 for an absent value, so with
  \<open>maxTokens: 0\<close> and \<open>temperature: 0\<close> configured the request that is posted carries
  \<open>max_tokens: 1000\<close> and \<open>temperature: 0.7\<close>.
\<close>

theorem configured_zero_is_replaced:
  "posted (fst (dispatch
      (test_llm_config\<lparr> maxTokens := Some 0, temperature := Some 0 \<rparr>)
      (\<lambda>req. Inl (Error ''API request failed'')) ''You are a helpful assistant'' ''Hello'' []))
   = [\<lparr> url = ''https://api.openai.com/v1/chat/completions'',
        body = Chat \<lparr> r_model = ''gpt-4'',
                      messages = [\<lparr> role = ''system'',
                                     content = JStr ''You are a helpful assistant'' \<rparr>,
                                  \<lparr> role = ''user'', content = JStr ''Hello'' \<rparr>],
                      max_tokens = 1000, r_temperature = 7 / 10 \<rparr>,
        headers = [(''Authorization'', ''Bearer test-api-key''),
                   (''Content-Type'', ''application/json'')] \<rparr>]"
  by (simp add: posted_dispatch openai_request_def number_or_def string_or_def chat_messages_def
        bearer_headers_def formatChatHistory_eq test_llm_config_def)

lemma generateResponse_of_dispatch:
  "generateResponse cfg pers stringify post m h =
     (let called = dispatch cfg post (string_or (systemPrompt cfg) (generateSystemPrompt pers)) m h
      in case snd called of
           Inl e \<Rightarrow> (fst called @ [LogError (''Error generating response: '' @ message e)],
                     JStr fallback)
         | Inr response \<Rightarrow>
             (fst called @
                (if truthy (resp_usage response)
                 then [LogDebug (''Token usage: '' @ stringify (resp_usage response) 0)] else []),
              resp_text response))"
  by (simp add: generateResponse_def generateResponse_try_def Let_def split: sum.splits)

lemma dispatch_unsupported:
  "provider cfg \<notin> {''grok'', ''openai'', ''anthropic'', ''custom''} \<Longrightarrow>
   dispatch cfg post sys m h = ([], Inl (Error (''Unsupported LLM provider: '' @ provider cfg)))"
  by (simp add: dispatch_def)

lemma snd_dispatch:
  "snd (dispatch cfg post sys m h) =
     (if provider cfg = ''grok'' then bindE (post (grok_request cfg sys m h)) choices_text
      else if provider cfg = ''openai'' then bindE (post (openai_request cfg sys m h)) choices_text
      else if provider cfg = ''anthropic'' then
        bindE (post (anthropic_request cfg sys m h)) content_text
      else if provider cfg = ''custom'' then
        (case endpoint cfg of
           None \<Rightarrow> Inl (Error ''Custom API endpoint is required but not provided'')
         | Some ep \<Rightarrow>
             if ep = [] then Inl (Error ''Custom API endpoint is required but not provided'')
             else bindE (post (custom_request_to cfg ep sys m h)) custom_text)
      else Inl (Error (''Unsupported LLM provider: '' @ provider cfg)))"
  by (simp add: dispatch_def callGrokApi_def callOpenAiApi_def callAnthropicApi_def
        callCustomApi_def snd_rethrow Let_def split: option.splits)

lemma bindE_rejected: "post req = Inl e \<Longrightarrow> bindE (post req) f = Inl e"
  by (simp add: bindE_def)

lemma dispatch_http_error:
  assumes "\<forall>req. \<exists>e. post req = Inl e"
  shows "\<exists>e. snd (dispatch cfg post sys m h) = Inl e"
proof -
  have b: "\<exists>e. bindE (post req) f = Inl e" for req and f :: "jsval \<Rightarrow> js_error + llm_response"
    using assms bindE_rejected [of post req _ f] by metis
  show ?thesis
    unfolding snd_dispatch using b by (auto split: option.splits)
qed

text \<open>
  C1 (as amended). \<open>generateResponse\<close> never throws: the value that the router receives
  from \<open>llm_service\<close> is always a result. Whenever the dispatch throws, it logs the error
  and returns exactly the fallback string; the dispatch throws for a provider name outside
  the four, when the HTTP call rejects, and when the text cannot be read from the response
  because an object on the path is missing (here: no \<open>choices\<close> in a Grok or OpenAI
  response).
\<close>

theorem generateResponse_falls_back:
  "snd (llm_service cfg pers stringify post m h)
      = Inr (snd (generateResponse cfg pers stringify post m h))
   \<and> (\<forall>e. snd (dispatch cfg post (string_or (systemPrompt cfg) (generateSystemPrompt pers)) m h)
             = Inl e
          \<longrightarrow> generateResponse cfg pers stringify post m h
               = (fst (dispatch cfg post
                         (string_or (systemPrompt cfg) (generateSystemPrompt pers)) m h)
                    @ [LogError (''Error generating response: '' @ message e)],
                  JStr fallback))
   \<and> (provider cfg \<notin> {''grok'', ''openai'', ''anthropic'', ''custom''}
          \<longrightarrow> snd (generateResponse cfg pers stringify post m h) = JStr fallback)
   \<and> ((\<forall>req. \<exists>e. post req = Inl e)
          \<longrightarrow> snd (generateResponse cfg pers stringify post m h) = JStr fallback)
   \<and> (provider cfg \<in> {''grok'', ''openai''} \<and> (\<forall>req. \<exists>d. post req = Inr d \<and> optChain d ''choices'' = JUndefined)
          \<longrightarrow> snd (generateResponse cfg pers stringify post m h) = JStr fallback)"
proof -
  have 1: "snd (llm_service cfg pers stringify post m h)
      = Inr (snd (generateResponse cfg pers stringify post m h))"
    by (simp add: llm_service_def Let_def)
  have 2: "\<forall>e. snd (dispatch cfg post (string_or (systemPrompt cfg) (generateSystemPrompt pers)) m h)
             = Inl e
          \<longrightarrow> generateResponse cfg pers stringify post m h
               = (fst (dispatch cfg post
                         (string_or (systemPrompt cfg) (generateSystemPrompt pers)) m h)
                    @ [LogError (''Error generating response: '' @ message e)],
                  JStr fallback)"
    by (simp add: generateResponse_of_dispatch Let_def)
  have 3: "provider cfg \<notin> {''grok'', ''openai'', ''anthropic'', ''custom''}
          \<longrightarrow> snd (generateResponse cfg pers stringify post m h) = JStr fallback"
    by (simp add: generateResponse_of_dispatch dispatch_unsupported Let_def)
  have 4: "(\<forall>req. \<exists>e. post req = Inl e)
          \<longrightarrow> snd (generateResponse cfg pers stringify post m h) = JStr fallback"
  proof
    assume "\<forall>req. \<exists>e. post req = Inl e"
    from dispatch_http_error [OF this]
    obtain e where "snd (dispatch cfg post (string_or (systemPrompt cfg) (generateSystemPrompt pers)) m h) = Inl e"
      by blast
    then show "snd (generateResponse cfg pers stringify post m h) = JStr fallback"
      by (simp add: generateResponse_of_dispatch Let_def)
  qed
  have 5: "provider cfg \<in> {''grok'', ''openai''} \<and> (\<forall>req. \<exists>d. post req = Inr d \<and> optChain d ''choices'' = JUndefined)
          \<longrightarrow> snd (generateResponse cfg pers stringify post m h) = JStr fallback"
  proof
    assume a: "provider cfg \<in> {''grok'', ''openai''} \<and> (\<forall>req. \<exists>d. post req = Inr d \<and> optChain d ''choices'' = JUndefined)"
    have c: "\<exists>e. bindE (post req) choices_text = Inl e" for req
    proof -
      from a obtain d where d: "post req = Inr d" "optChain d ''choices'' = JUndefined" by blast
      then show ?thesis
        by (cases "getProp d ''choices''") (auto simp: bindE_def choices_text_def optChain_def)
    qed
    have "\<exists>e. snd (dispatch cfg post (string_or (systemPrompt cfg) (generateSystemPrompt pers)) m h) = Inl e"
      using a c by (auto simp: snd_dispatch)
    then show "snd (generateResponse cfg pers stringify post m h) = JStr fallback"
      by (auto simp: generateResponse_of_dispatch Let_def)
  qed
  from 1 2 3 4 5 show ?thesis by blast
qed

theorem generateResponse_falls_back_witness:
  "provider (test_llm_config\<lparr> provider := ''unsupported-provider'' \<rparr>)
     \<notin> {''grok'', ''openai'', ''anthropic'', ''custom''}
   \<and> generateResponse (test_llm_config\<lparr> provider := ''unsupported-provider'' \<rparr>)
         test_personality no_stringify (\<lambda>req. Inr (JObj [])) ''Hello''
         [JStr ''Previous message'']
       = ([LogError ''Error generating response: Unsupported LLM provider: unsupported-provider''],
          JStr fallback)"
  using generateResponse_falls_back
          [of "test_llm_config\<lparr> provider := ''unsupported-provider'' \<rparr>" test_personality
              no_stringify "\<lambda>req. Inr (JObj [])" "''Hello''" "[JStr ''Previous message'']"]
  by (simp add: test_llm_config_def dispatch_def)

text \<open>
  A response that only lacks the text itself makes nothing throw: the custom adapter given
  the body \<open>{}\<close> returns \<open>undefined\<close> as the text, and so does \<open>generateResponse\<close>.
\<close>

theorem response_without_text_is_returned:
  "snd (generateResponse
      (test_llm_config\<lparr> provider := ''custom'', model := Some ''custom-model'',
                        endpoint := Some ''https://custom-api.example.com'' \<rparr>)
      test_personality no_stringify (\<lambda>req. Inr (JObj [])) ''Hello''
      [JStr ''Previous message''])
   = JUndefined
   \<and> JUndefined \<noteq> JStr fallback"
  by (simp add: generateResponse_of_dispatch dispatch_def callCustomApi_def snd_rethrow
        rethrow_logged_def custom_text_def bindE_def optChain_def js_or_def string_or_def
        Let_def test_llm_config_def)

section \<open>BotService: access control and commands\<close>

lemma toString_test_ids:
  "toString_int 123456 = ''123456''" "toString_int 789012 = ''789012''"
  "toString_int 654321 = ''654321''"
  by (simp_all add: toString_int_def digits.simps)

lemma handleMessage_unauthorized:
  "message_text c = Some t \<Longrightarrow> blocked_unauthorized settings (toString_int (from_id c)) \<Longrightarrow>
   handleMessage settings pers cfg stringify gen st c
     = ([LogWarn (''Blocked message from unauthorized user: '' @ toString_int (from_id c))],
        st, None)"
  by (simp add: handleMessage_def Let_def)

lemma handleMessage_blacklisted:
  "message_text c = Some t \<Longrightarrow> \<not> blocked_unauthorized settings (toString_int (from_id c)) \<Longrightarrow>
   blocked_blacklisted settings (toString_int (from_id c)) \<Longrightarrow>
   handleMessage settings pers cfg stringify gen st c
     = ([LogWarn (''Blocked message from blacklisted user: '' @ toString_int (from_id c))],
        st, None)"
  by (simp add: handleMessage_def Let_def)

lemma silent_outcome:
  "replies (events_of ([LogWarn w], st, None)) = []
   \<and> filter is_generate (events_of ([LogWarn w], st, None)) = []
   \<and> posted (events_of ([LogWarn w], st, None)) = []
   \<and> state_of ([LogWarn w], st, None) = st
   \<and> escaped ([LogWarn w], st, None) = None"
  by (simp add: replies_def events_of_def state_of_def escaped_def posted_def)

text \<open>
  C4. For a text message, the allow-list is looked at first: when it is configured,
  non-empty and does not hold the sender, \<open>handleMessage\<close> only logs a warning; otherwise,
  when the block-list holds the sender, it only logs a warning too. In both cases nothing
  is replied and the store is unchanged. A sender on the block-list therefore gets no
  reply whatever the allow-list is, the generator is not called, and nothing is posted.
\<close>

theorem access_control:
  assumes "message_text c = Some t"
  shows "(\<forall>users. allowedUsers settings = Some users \<and> users \<noteq> []
                 \<and> toString_int (from_id c) \<notin> set users
           \<longrightarrow> handleMessage settings pers cfg stringify gen st c
                = ([LogWarn (''Blocked message from unauthorized user: ''
                             @ toString_int (from_id c))], st, None))
       \<and> (\<forall>users. \<not> (\<exists>allowed. allowedUsers settings = Some allowed \<and> allowed \<noteq> []
                                \<and> toString_int (from_id c) \<notin> set allowed)
                 \<and> blacklistedUsers settings = Some users
                 \<and> toString_int (from_id c) \<in> set users
           \<longrightarrow> handleMessage settings pers cfg stringify gen st c
                = ([LogWarn (''Blocked message from blacklisted user: ''
                             @ toString_int (from_id c))], st, None))
       \<and> (\<forall>users. blacklistedUsers settings = Some users
                 \<and> toString_int (from_id c) \<in> set users
           \<longrightarrow> replies (events_of (handleMessage settings pers cfg stringify gen st c)) = []
               \<and> filter is_generate
                    (events_of (handleMessage settings pers cfg stringify gen st c)) = []
               \<and> posted (events_of (handleMessage settings pers cfg stringify gen st c)) = []
               \<and> state_of (handleMessage settings pers cfg stringify gen st c) = st
               \<and> escaped (handleMessage settings pers cfg stringify gen st c) = None)"
proof (intro conjI allI impI)
  fix users
  assume "allowedUsers settings = Some users \<and> users \<noteq> []
          \<and> toString_int (from_id c) \<notin> set users"
  then have "blocked_unauthorized settings (toString_int (from_id c))"
    by (simp add: blocked_unauthorized_def)
  with assms show "handleMessage settings pers cfg stringify gen st c
                = ([LogWarn (''Blocked message from unauthorized user: ''
                             @ toString_int (from_id c))], st, None)"
    by (rule handleMessage_unauthorized)
next
  fix users
  assume a: "\<not> (\<exists>allowed. allowedUsers settings = Some allowed \<and> allowed \<noteq> []
                                \<and> toString_int (from_id c) \<notin> set allowed)
                 \<and> blacklistedUsers settings = Some users
                 \<and> toString_int (from_id c) \<in> set users"
  then have 1: "\<not> blocked_unauthorized settings (toString_int (from_id c))"
    by (cases "allowedUsers settings") (auto simp: blocked_unauthorized_def)
  from a have 2: "blocked_blacklisted settings (toString_int (from_id c))"
    by (simp add: blocked_blacklisted_def)
  from assms 1 2 show "handleMessage settings pers cfg stringify gen st c
                = ([LogWarn (''Blocked message from blacklisted user: ''
                             @ toString_int (from_id c))], st, None)"
    by (rule handleMessage_blacklisted)
next
  fix users
  assume a: "blacklistedUsers settings = Some users \<and> toString_int (from_id c) \<in> set users"
  then have 2: "blocked_blacklisted settings (toString_int (from_id c))"
    by (simp add: blocked_blacklisted_def)
  have "\<exists>w. handleMessage settings pers cfg stringify gen st c = ([LogWarn w], st, None)"
  proof (cases "blocked_unauthorized settings (toString_int (from_id c))")
    case True
    with assms show ?thesis by (simp add: handleMessage_unauthorized)
  next
    case False
    with assms 2 show ?thesis by (simp add: handleMessage_blacklisted)
  qed
  then obtain w where w: "handleMessage settings pers cfg stringify gen st c = ([LogWarn w], st, None)"
    by blast
  show "replies (events_of (handleMessage settings pers cfg stringify gen st c)) = []"
    "filter is_generate (events_of (handleMessage settings pers cfg stringify gen st c)) = []"
    "posted (events_of (handleMessage settings pers cfg stringify gen st c)) = []"
    "state_of (handleMessage settings pers cfg stringify gen st c) = st"
    "escaped (handleMessage settings pers cfg stringify gen st c) = None"
    unfolding w using silent_outcome [of w st] by simp_all
qed


theorem access_control_witness:
  "message_text (test_ctx\<lparr> from_id := 654321 \<rparr>) = Some ''Hello bot''
   \<and> blacklistedUsers (test_settings\<lparr> blacklistedUsers := Some [''654321''] \<rparr>)
       = Some [''654321'']
   \<and> toString_int (from_id (test_ctx\<lparr> from_id := 654321 \<rparr>)) \<in> set [''654321'']
   \<and> replies (events_of (handleMessage
         (test_settings\<lparr> blacklistedUsers := Some [''654321''] \<rparr>) test_personality
         test_llm_config no_stringify
         (llm_service test_llm_config test_personality no_stringify
            (\<lambda>req. Inl (Error ''API request failed'')))
         initial_state (test_ctx\<lparr> from_id := 654321 \<rparr>))) = []
   \<and> state_of (handleMessage
         (test_settings\<lparr> blacklistedUsers := Some [''654321''] \<rparr>) test_personality
         test_llm_config no_stringify
         (llm_service test_llm_config test_personality no_stringify
            (\<lambda>req. Inl (Error ''API request failed'')))
         initial_state (test_ctx\<lparr> from_id := 654321 \<rparr>)) = initial_state"
proof -
  have m: "message_text (test_ctx\<lparr> from_id := 654321 \<rparr>) = Some ''Hello bot''"
    by (simp add: test_ctx_def)
  have b: "blacklistedUsers (test_settings\<lparr> blacklistedUsers := Some [''654321''] \<rparr>)
             = Some [''654321'']
           \<and> toString_int (from_id (test_ctx\<lparr> from_id := 654321 \<rparr>)) \<in> set [''654321'']"
    by (simp add: toString_test_ids)
  from access_control [OF m, of "test_settings\<lparr> blacklistedUsers := Some [''654321''] \<rparr>"
        test_personality test_llm_config no_stringify
        "llm_service test_llm_config test_personality no_stringify
            (\<lambda>req. Inl (Error ''API request failed''))" initial_state] b m
  show ?thesis by blast
qed

lemma handleMessage_command:
  "message_text c = Some t \<Longrightarrow> \<not> blocked_unauthorized settings (toString_int (from_id c)) \<Longrightarrow>
   \<not> blocked_blacklisted settings (toString_int (from_id c)) \<Longrightarrow> is_command settings t \<Longrightarrow>
   handleMessage settings pers cfg stringify gen st c
     = handleCustomCommand settings pers cfg stringify st c t"
  by (simp add: handleMessage_def Let_def)

lemma handleCustomCommand_reset:
  "commandPrefix settings = Some p \<Longrightarrow> toLowerCase (trim (substring t (length p))) = ''reset'' \<Longrightarrow>
   handleCustomCommand settings pers cfg stringify st c t
     = ([Reply (JStr reset_reply)],
        st\<lparr> chatHistory := (chatHistory st)(toString_int (chat_id c) \<mapsto> []) \<rparr>,
        reply_result c 0 (JStr reset_reply))"
  by (simp add: handleCustomCommand_def Let_def)

text \<open>
  C5. With a command prefix configured, \<open>handleCustomCommand\<close> given the prefix followed
  by a text that is \<open>reset\<close> once trimmed and lower-cased sets the history of the chat to
  the empty array and then replies exactly \<open>I've reset our conversation history.\<close>.
  \<open>handleMessage\<close> takes this path for such a text whenever the prefix is not empty and the
  sender passes the access control, and then neither calls the generator nor posts
  anything.
\<close>

theorem reset_command:
  assumes "commandPrefix settings = Some p"
    and "toLowerCase (trim rest) = ''reset''"
  shows "handleCustomCommand settings pers cfg stringify st c (p @ rest)
           = ([Reply (JStr ''I've reset our conversation history.'')],
              st\<lparr> chatHistory := (chatHistory st)(toString_int (chat_id c) \<mapsto> []) \<rparr>,
              reply_result c 0 (JStr ''I've reset our conversation history.''))
       \<and> (message_text c = Some (p @ rest) \<and> p \<noteq> []
            \<and> \<not> blocked_unauthorized settings (toString_int (from_id c))
            \<and> \<not> blocked_blacklisted settings (toString_int (from_id c))
          \<longrightarrow> handleMessage settings pers cfg stringify gen st c
                = ([Reply (JStr ''I've reset our conversation history.'')],
                   st\<lparr> chatHistory := (chatHistory st)(toString_int (chat_id c) \<mapsto> []) \<rparr>,
                   reply_result c 0 (JStr ''I've reset our conversation history.''))
              \<and> replies (events_of (handleMessage settings pers cfg stringify gen st c))
                  = [JStr ''I've reset our conversation history.'']
              \<and> getChatHistory (state_of (handleMessage settings pers cfg stringify gen st c))
                   (toString_int (chat_id c)) = []
              \<and> filter is_generate
                   (events_of (handleMessage settings pers cfg stringify gen st c)) = []
              \<and> posted (events_of (handleMessage settings pers cfg stringify gen st c)) = [])"
proof -
  have sub: "toLowerCase (trim (substring (p @ rest) (length p))) = ''reset''"
    using assms(2) by (simp add: substring_def)
  have cmd: "handleCustomCommand settings pers cfg stringify st c (p @ rest)
           = ([Reply (JStr reset_reply)],
              st\<lparr> chatHistory := (chatHistory st)(toString_int (chat_id c) \<mapsto> []) \<rparr>,
              reply_result c 0 (JStr reset_reply))"
    using assms(1) sub by (rule handleCustomCommand_reset)
  have isc: "p \<noteq> [] \<Longrightarrow> is_command settings (p @ rest)"
    using assms(1) by (simp add: is_command_def startsWith_def)
  have obs: "replies (events_of ([Reply (JStr reset_reply)], s', r)) = [JStr reset_reply]
        \<and> getChatHistory (state_of ([Reply (JStr reset_reply)],
              st\<lparr> chatHistory := (chatHistory st)(toString_int (chat_id c) \<mapsto> []) \<rparr>, r))
              (toString_int (chat_id c)) = []
        \<and> filter is_generate (events_of ([Reply (JStr reset_reply)], s', r)) = []
        \<and> posted (events_of ([Reply (JStr reset_reply)], s', r)) = []" for s' r
    by (simp add: replies_def events_of_def state_of_def getChatHistory_def posted_def)
  show ?thesis
    using cmd isc obs
    by (simp add: handleMessage_command reset_reply_def)
qed

theorem reset_command_witness:
  "commandPrefix test_settings = Some ''/''
   \<and> toLowerCase (trim ''Reset '') = ''reset''
   \<and> message_text (test_ctx\<lparr> message_text := Some ''/Reset '' \<rparr>) = Some (''/'' @ ''Reset '')
   \<and> \<not> blocked_unauthorized test_settings
         (toString_int (from_id (test_ctx\<lparr> message_text := Some ''/Reset '' \<rparr>)))
   \<and> \<not> blocked_blacklisted test_settings
         (toString_int (from_id (test_ctx\<lparr> message_text := Some ''/Reset '' \<rparr>)))
   \<and> handleMessage test_settings test_personality test_llm_config no_stringify
         (llm_service test_llm_config test_personality no_stringify
            (\<lambda>req. Inl (Error ''API request failed'')))
         (addToChatHistory initial_state ''123456'' (JStr ''earlier''))
         (test_ctx\<lparr> message_text := Some ''/Reset '' \<rparr>)
       = ([Reply (JStr ''I've reset our conversation history.'')],
          (addToChatHistory initial_state ''123456'' (JStr ''earlier''))
            \<lparr> chatHistory :=
                (chatHistory (addToChatHistory initial_state ''123456'' (JStr ''earlier'')))
                  (''123456'' \<mapsto> []) \<rparr>,
          None)"
proof -
  have p: "commandPrefix test_settings = Some ''/''"
    by (simp add: test_settings_def)
  have r: "toLowerCase (trim ''Reset '') = ''reset''"
    by code_simp
  have m: "message_text (test_ctx\<lparr> message_text := Some ''/Reset '' \<rparr>)
             = Some (''/'' @ ''Reset '')"
    by simp
  have a: "\<not> blocked_unauthorized test_settings
               (toString_int (from_id (test_ctx\<lparr> message_text := Some ''/Reset '' \<rparr>)))
           \<and> \<not> blocked_blacklisted test_settings
               (toString_int (from_id (test_ctx\<lparr> message_text := Some ''/Reset '' \<rparr>)))"
    by (simp add: blocked_unauthorized_def blocked_blacklisted_def test_settings_def)
  have c: "toString_int (chat_id (test_ctx\<lparr> message_text := Some ''/Reset '' \<rparr>)) = ''123456''"
    "reply_result (test_ctx\<lparr> message_text := Some ''/Reset '' \<rparr>) 0
       (JStr ''I've reset our conversation history.'') = None"
    by (simp_all add: test_ctx_def toString_test_ids)
  from reset_command [OF p r, of test_personality test_llm_config no_stringify
        "addToChatHistory initial_state ''123456'' (JStr ''earlier'')"
        "test_ctx\<lparr> message_text := Some ''/Reset '' \<rparr>"
        "llm_service test_llm_config test_personality no_stringify
            (\<lambda>req. Inl (Error ''API request failed''))"] m a
  have "handleMessage test_settings test_personality test_llm_config no_stringify
         (llm_service test_llm_config test_personality no_stringify
            (\<lambda>req. Inl (Error ''API request failed'')))
         (addToChatHistory initial_state ''123456'' (JStr ''earlier''))
         (test_ctx\<lparr> message_text := Some ''/Reset '' \<rparr>)
       = ([Reply (JStr ''I've reset our conversation history.'')],
          (addToChatHistory initial_state ''123456'' (JStr ''earlier''))
            \<lparr> chatHistory :=
                (chatHistory (addToChatHistory initial_state ''123456'' (JStr ''earlier'')))
                  (toString_int (chat_id (test_ctx\<lparr> message_text := Some ''/Reset '' \<rparr>))
                     \<mapsto> []) \<rparr>,
          reply_result (test_ctx\<lparr> message_text := Some ''/Reset '' \<rparr>) 0
            (JStr ''I've reset our conversation history.''))"
    by simp
  then show ?thesis
    using p r m a by (simp only: c simp_thms)
qed

section \<open>BotService: the generation branch\<close>

lemma handleMessage_generation:
  assumes "message_text c = Some t"
    and "\<not> blocked_unauthorized settings (toString_int (from_id c))"
    and "\<not> blocked_blacklisted settings (toString_int (from_id c))"
    and "\<not> is_command settings t"
  shows "handleMessage settings pers cfg stringify gen st c =
     (let chatId = toString_int (chat_id c);
          st1 = addToChatHistory st chatId (JStr t)
      in case sendChatAction_result c chatId ''typing'' of
           Some e \<Rightarrow> ([SendChatAction chatId ''typing''], st1, Some e)
         | None \<Rightarrow>
             (let tried = respond settings gen st1 c chatId t
              in case escaped tried of
                   None \<Rightarrow>
                     (SendChatAction chatId ''typing'' # events_of tried, state_of tried, None)
                 | Some e \<Rightarrow>
                     (SendChatAction chatId ''typing'' # events_of tried
                        @ [LogError (''Error handling message: '' @ message e),
                           Reply (JStr apology)],
                      state_of tried,
                      reply_result c (length (replies (events_of tried))) (JStr apology))))"
  using assms by (simp add: handleMessage_def Let_def)

lemma respond_failed_state:
  "escaped (respond settings gen st c chatId t) = Some e \<Longrightarrow>
   state_of (respond settings gen st c chatId t) = st"
  by (auto simp: respond_def escaped_def state_of_def Let_def split: sum.splits option.splits)

lemma respond_generator_throws:
  "gen t (getChatHistory st chatId) = (gevs, Inl e) \<Longrightarrow>
   respond settings gen st c chatId t = (Generate t (getChatHistory st chatId) # gevs, st, Some e)"
  by (simp add: respond_def BotService_generateResponse_def Let_def)

lemma replies_append: "replies (xs @ ys) = replies xs @ replies ys"
  by (simp add: replies_def)

lemma replies_Cons_simps:
  "replies (Reply v # xs) = v # replies xs"
  "replies (SendChatAction a b # xs) = replies xs"
  "replies (LogError m # xs) = replies xs"
  "replies (Generate u h # xs) = replies xs"
  "replies [] = []"
  by (simp_all add: replies_def)

lemma last_slice_last_snoc: "0 < n \<Longrightarrow> last (slice_last n (xs @ [x])) = x"
  by (simp add: slice_last_def)

lemma history_after_user_message:
  "getChatHistory (addToChatHistory st chatId m) chatId
     = slice_last (maxHistoryLength * 2) (getChatHistory st chatId @ [m])"
  by (simp add: getChatHistory_add)

lemma history_after_user_message_last:
  "getChatHistory (addToChatHistory st chatId m) chatId \<noteq> []
   \<and> last (getChatHistory (addToChatHistory st chatId m) chatId) = m"
  by (simp add: getChatHistory_add slice_last_def maxHistoryLength_def)

text \<open>
  C2 (as amended). For a text message that is not a command, from a sender who passes the
  access control, and once the typing indicator has been sent: any error raised inside the
  \<open>try\<close> block (by the generator, or by sending the generated reply) is caught. The router
  logs it and calls \<open>reply\<close> with exactly
  \<open>I'm sorry, I encountered an error while processing your message.\<close> as its last reply;
  the user's message stays in the history as its last entry; and the promise rejects only
  if this apology reply itself rejects. A throwing generator in particular gives the
  typing indicator, the generator call, the error log line and the apology, in this order.
\<close>

theorem errors_in_try_are_caught:
  assumes "message_text c = Some t"
    and "\<not> blocked_unauthorized settings (toString_int (from_id c))"
    and "\<not> blocked_blacklisted settings (toString_int (from_id c))"
    and "\<not> is_command settings t"
    and "sendChatAction_result c (toString_int (chat_id c)) ''typing'' = None"
    and "escaped (respond settings gen (addToChatHistory st (toString_int (chat_id c)) (JStr t))
                    c (toString_int (chat_id c)) t) = Some e"
  shows "events_of (handleMessage settings pers cfg stringify gen st c)
           = SendChatAction (toString_int (chat_id c)) ''typing''
             # events_of (respond settings gen
                            (addToChatHistory st (toString_int (chat_id c)) (JStr t))
                            c (toString_int (chat_id c)) t)
             @ [LogError (''Error handling message: '' @ message e),
                Reply (JStr ''I'm sorry, I encountered an error while processing your message.'')]
       \<and> last (replies (events_of (handleMessage settings pers cfg stringify gen st c)))
           = JStr ''I'm sorry, I encountered an error while processing your message.''
       \<and> state_of (handleMessage settings pers cfg stringify gen st c)
           = addToChatHistory st (toString_int (chat_id c)) (JStr t)
       \<and> last (getChatHistory (state_of (handleMessage settings pers cfg stringify gen st c))
                 (toString_int (chat_id c))) = JStr t
       \<and> escaped (handleMessage settings pers cfg stringify gen st c)
           = reply_result c
               (length (replies (events_of (respond settings gen
                            (addToChatHistory st (toString_int (chat_id c)) (JStr t))
                            c (toString_int (chat_id c)) t))))
               (JStr ''I'm sorry, I encountered an error while processing your message.'')
       \<and> (\<forall>gevs e'. gen t (getChatHistory
                              (addToChatHistory st (toString_int (chat_id c)) (JStr t))
                              (toString_int (chat_id c))) = (gevs, Inl e')
            \<longrightarrow> handleMessage settings pers cfg stringify gen st c
                 = (SendChatAction (toString_int (chat_id c)) ''typing''
                    # Generate t (getChatHistory
                                   (addToChatHistory st (toString_int (chat_id c)) (JStr t))
                                   (toString_int (chat_id c)))
                    # gevs
                    @ [LogError (''Error handling message: '' @ message e'),
                       Reply (JStr ''I'm sorry, I encountered an error while processing your message.'')],
                    addToChatHistory st (toString_int (chat_id c)) (JStr t),
                    reply_result c (length (replies gevs))
                      (JStr ''I'm sorry, I encountered an error while processing your message.'')))"
proof -
  let ?cid = "toString_int (chat_id c)"
  let ?st1 = "addToChatHistory st ?cid (JStr t)"
  let ?tried = "respond settings gen ?st1 c ?cid t"
  have hm: "handleMessage settings pers cfg stringify gen st c
      = (SendChatAction ?cid ''typing'' # events_of ?tried
           @ [LogError (''Error handling message: '' @ message e), Reply (JStr apology)],
         state_of ?tried,
         reply_result c (length (replies (events_of ?tried))) (JStr apology))"
    using assms by (simp add: handleMessage_generation Let_def)
  have st: "state_of ?tried = ?st1"
    using assms(6) by (rule respond_failed_state)
  have 1: "events_of (handleMessage settings pers cfg stringify gen st c)
           = SendChatAction ?cid ''typing'' # events_of ?tried
             @ [LogError (''Error handling message: '' @ message e), Reply (JStr apology)]"
    by (simp add: hm events_of_def)
  have 2: "last (replies (events_of (handleMessage settings pers cfg stringify gen st c)))
           = JStr apology"
    by (simp add: 1 replies_append replies_Cons_simps)
  have 3: "state_of (handleMessage settings pers cfg stringify gen st c) = ?st1"
    using st by (simp add: hm state_of_def)
  have 4: "last (getChatHistory (state_of (handleMessage settings pers cfg stringify gen st c))
                 ?cid) = JStr t"
    by (simp add: 3 history_after_user_message_last)
  have 5: "escaped (handleMessage settings pers cfg stringify gen st c)
           = reply_result c (length (replies (events_of ?tried))) (JStr apology)"
    by (simp add: hm escaped_def)
  have 6: "\<forall>gevs e'. gen t (getChatHistory ?st1 ?cid) = (gevs, Inl e')
            \<longrightarrow> handleMessage settings pers cfg stringify gen st c
                 = (SendChatAction ?cid ''typing'' # Generate t (getChatHistory ?st1 ?cid) # gevs
                    @ [LogError (''Error handling message: '' @ message e'), Reply (JStr apology)],
                    ?st1, reply_result c (length (replies gevs)) (JStr apology))"
  proof (intro allI impI)
    fix gevs e'
    assume g: "gen t (getChatHistory ?st1 ?cid) = (gevs, Inl e')"
    have r: "?tried = (Generate t (getChatHistory ?st1 ?cid) # gevs, ?st1, Some e')"
      using g by (rule respond_generator_throws)
    have rg: "replies (Generate t (getChatHistory ?st1 ?cid) # gevs) = replies gevs"
      by (simp add: replies_Cons_simps)
    show "handleMessage settings pers cfg stringify gen st c
                 = (SendChatAction ?cid ''typing'' # Generate t (getChatHistory ?st1 ?cid) # gevs
                    @ [LogError (''Error handling message: '' @ message e'), Reply (JStr apology)],
                    ?st1, reply_result c (length (replies gevs)) (JStr apology))"
    proof -
      from assms(6) r have "e' = e" by (simp add: escaped_def)
      then show ?thesis
        using hm r rg by (simp add: events_of_def state_of_def)
    qed
  qed
  from 1 2 3 4 5 6 show ?thesis
    unfolding apology_def by blast
qed


theorem errors_in_try_are_caught_witness:
  "message_text test_ctx = Some ''Hello bot''
   \<and> \<not> blocked_unauthorized test_settings (toString_int (from_id test_ctx))
   \<and> \<not> blocked_blacklisted test_settings (toString_int (from_id test_ctx))
   \<and> \<not> is_command test_settings ''Hello bot''
   \<and> sendChatAction_result test_ctx (toString_int (chat_id test_ctx)) ''typing'' = None
   \<and> escaped (respond test_settings (\<lambda>m h. ([], Inl (Error ''LLM error'')))
                (addToChatHistory initial_state (toString_int (chat_id test_ctx))
                   (JStr ''Hello bot''))
                test_ctx (toString_int (chat_id test_ctx)) ''Hello bot'')
       = Some (Error ''LLM error'')
   \<and> events_of (handleMessage test_settings test_personality test_llm_config no_stringify
         (\<lambda>m h. ([], Inl (Error ''LLM error''))) initial_state test_ctx)
       = [SendChatAction ''123456'' ''typing'',
          Generate ''Hello bot'' [JStr ''Hello bot''],
          LogError ''Error handling message: LLM error'',
          Reply (JStr ''I'm sorry, I encountered an error while processing your message.'')]
   \<and> state_of (handleMessage test_settings test_personality test_llm_config no_stringify
         (\<lambda>m h. ([], Inl (Error ''LLM error''))) initial_state test_ctx)
       = \<lparr> chatHistory = [''123456'' \<mapsto> [JStr ''Hello bot'']] \<rparr>
   \<and> escaped (handleMessage test_settings test_personality test_llm_config no_stringify
         (\<lambda>m h. ([], Inl (Error ''LLM error''))) initial_state test_ctx)
       = None"
proof -
  have m: "message_text test_ctx = Some ''Hello bot''"
    by (simp add: test_ctx_def)
  have u: "\<not> blocked_unauthorized test_settings (toString_int (from_id test_ctx))"
    by (simp add: blocked_unauthorized_def test_settings_def)
  have b: "\<not> blocked_blacklisted test_settings (toString_int (from_id test_ctx))"
    by (simp add: blocked_blacklisted_def test_settings_def)
  have k: "\<not> is_command test_settings ''Hello bot''"
    by (simp add: is_command_def test_settings_def startsWith_def)
  have a: "sendChatAction_result test_ctx (toString_int (chat_id test_ctx)) ''typing'' = None"
    by (simp add: test_ctx_def)
  have cid: "toString_int (chat_id test_ctx) = ''123456''"
    by (simp add: test_ctx_def toString_test_ids)
  have s1: "addToChatHistory initial_state ''123456'' (JStr ''Hello bot'')
              = \<lparr> chatHistory = [''123456'' \<mapsto> [JStr ''Hello bot'']] \<rparr>"
    by (simp add: addToChatHistory_def initial_state_def Let_def maxHistoryLength_def)
  have r: "respond test_settings (\<lambda>m h. ([], Inl (Error ''LLM error'')))
             \<lparr> chatHistory = [''123456'' \<mapsto> [JStr ''Hello bot'']] \<rparr> test_ctx ''123456''
             ''Hello bot''
           = ([Generate ''Hello bot'' [JStr ''Hello bot'']],
              \<lparr> chatHistory = [''123456'' \<mapsto> [JStr ''Hello bot'']] \<rparr>,
              Some (Error ''LLM error''))"
    by (simp add: respond_def BotService_generateResponse_def getChatHistory_def Let_def)
  have e: "escaped (respond test_settings (\<lambda>m h. ([], Inl (Error ''LLM error'')))
                (addToChatHistory initial_state (toString_int (chat_id test_ctx))
                   (JStr ''Hello bot''))
                test_ctx (toString_int (chat_id test_ctx)) ''Hello bot'')
       = Some (Error ''LLM error'')"
    by (simp add: cid s1 r escaped_def)
  have rr: "reply_result test_ctx n v = None" for n v
    by (simp add: test_ctx_def)
  note t = errors_in_try_are_caught
             [OF m u b k a e, of test_personality test_llm_config no_stringify]
  have 1: "events_of (handleMessage test_settings test_personality test_llm_config no_stringify
         (\<lambda>m h. ([], Inl (Error ''LLM error''))) initial_state test_ctx)
       = [SendChatAction ''123456'' ''typing'',
          Generate ''Hello bot'' [JStr ''Hello bot''],
          LogError ''Error handling message: LLM error'',
          Reply (JStr ''I'm sorry, I encountered an error while processing your message.'')]"
    using t [THEN conjunct1] by (simp add: cid s1 r events_of_def)
  have 2: "state_of (handleMessage test_settings test_personality test_llm_config no_stringify
         (\<lambda>m h. ([], Inl (Error ''LLM error''))) initial_state test_ctx)
       = \<lparr> chatHistory = [''123456'' \<mapsto> [JStr ''Hello bot'']] \<rparr>"
    using t [THEN conjunct2, THEN conjunct2, THEN conjunct1] by (simp add: cid s1)
  have 3: "escaped (handleMessage test_settings test_personality test_llm_config no_stringify
         (\<lambda>m h. ([], Inl (Error ''LLM error''))) initial_state test_ctx)
       = None"
    using t [THEN conjunct2, THEN conjunct2, THEN conjunct2, THEN conjunct2, THEN conjunct1]
    by (simp add: rr)
  from m u b k a e 1 2 3 show ?thesis by (simp only: simp_thms)
qed

text \<open>
  \<open>sendChatAction\<close> is called before the \<open>try\<close> block: when it rejects, the error
  leaves \<open>handleMessage\<close>, and nothing is replied.
\<close>

theorem typing_indicator_error_escapes:
  "handleMessage test_settings test_personality test_llm_config no_stringify
     (llm_service test_llm_config test_personality no_stringify
        (\<lambda>req. Inl (Error ''API request failed'')))
     initial_state
     (test_ctx\<lparr> sendChatAction_result := (\<lambda>chatId action. Some (Error ''ETIMEDOUT'')) \<rparr>)
   = ([SendChatAction ''123456'' ''typing''],
      \<lparr> chatHistory = [''123456'' \<mapsto> [JStr ''Hello bot'']] \<rparr>,
      Some (Error ''ETIMEDOUT''))"
  by (simp add: handleMessage_def Let_def test_ctx_def test_settings_def blocked_unauthorized_def
        blocked_blacklisted_def is_command_def startsWith_def toString_test_ids
        addToChatHistory_def initial_state_def maxHistoryLength_def)

section \<open>The user message reaches the provider twice\<close>

lemma posted_append: "posted (xs @ ys) = posted xs @ posted ys"
  by (simp add: posted_def)

lemma posted_Cons_simps:
  "posted (HttpPost r # xs) = r # posted xs"
  "posted (Reply v # xs) = posted xs"
  "posted (SendChatAction a b # xs) = posted xs"
  "posted (LogError m # xs) = posted xs"
  "posted (LogDebug m # xs) = posted xs"
  "posted (Generate u h # xs) = posted xs"
  "posted (Delay d # xs) = posted xs"
  "posted [] = []"
  by (simp_all add: posted_def)

lemma posted_generateResponse:
  "posted (fst (generateResponse cfg pers stringify post m h))
     = posted (fst (dispatch cfg post (string_or (systemPrompt cfg) (generateSystemPrompt pers)) m h))"
  by (simp add: generateResponse_of_dispatch Let_def posted_append posted_Cons_simps
        split: sum.splits)

lemma posted_respond_llm_service:
  "posted (events_of (respond settings (llm_service cfg pers stringify post) st c chatId t))
     = posted (fst (dispatch cfg post (string_or (systemPrompt cfg) (generateSystemPrompt pers))
                      t (getChatHistory st chatId)))"
  by (simp add: respond_def BotService_generateResponse_def llm_service_def Let_def events_of_def
        posted_append posted_Cons_simps posted_generateResponse split: option.splits)

lemma respond_starts_with_generate:
  "\<exists>rest. events_of (respond settings gen st c chatId t)
            = Generate t (getChatHistory st chatId) # rest"
  by (simp add: respond_def BotService_generateResponse_def Let_def events_of_def
        split: sum.splits option.splits)

lemma formatChatHistory_last:
  "h \<noteq> [] \<Longrightarrow> content (last (formatChatHistory h)) = last h"
  by (simp add: formatChatHistory_eq last_map last_conv_nth)

lemma posted_handleMessage_llm_service:
  assumes "message_text c = Some t"
    and "\<not> blocked_unauthorized settings (toString_int (from_id c))"
    and "\<not> blocked_blacklisted settings (toString_int (from_id c))"
    and "\<not> is_command settings t"
    and "sendChatAction_result c (toString_int (chat_id c)) ''typing'' = None"
  shows "posted (events_of (handleMessage settings pers cfg stringify
                               (llm_service cfg pers stringify post) st c))
           = posted (fst (dispatch cfg post
                            (string_or (systemPrompt cfg) (generateSystemPrompt pers)) t
                            (getChatHistory
                               (addToChatHistory st (toString_int (chat_id c)) (JStr t))
                               (toString_int (chat_id c)))))"
  using assms
  by (simp add: handleMessage_generation Let_def events_of_def posted_append posted_Cons_simps
        posted_respond_llm_service [unfolded events_of_def] split: option.splits)

text \<open>
  C7 (as amended). For a text message that reaches the generation branch (not a command,
  sender admitted, typing indicator sent), \<open>handleMessage\<close> first appends the user's text to
  the history and then calls the generator with the text and that history \<open>h\<close>, whose last
  entry is the text. With \<open>LlmService\<close> as the generator exactly one request is posted for
  each of the four providers (for \<open>custom\<close>, when an endpoint is configured). For Grok,
  OpenAI and Anthropic its \<open>messages\<close> are the system prompt, the formatted history, whose
  last entry has the text as content, and the text again as the final entry with role
  \<open>user\<close>. The custom request has no roles: its \<open>chat_history\<close> is \<open>h\<close>, ending with the
  text, and its \<open>user_message\<close> is the text again. So the text is sent twice in every
  request.
\<close>

theorem user_message_sent_twice:
  assumes "message_text c = Some t"
    and "\<not> blocked_unauthorized settings (toString_int (from_id c))"
    and "\<not> blocked_blacklisted settings (toString_int (from_id c))"
    and "\<not> is_command settings t"
    and "sendChatAction_result c (toString_int (chat_id c)) ''typing'' = None"
    and "h = getChatHistory (addToChatHistory st (toString_int (chat_id c)) (JStr t))
               (toString_int (chat_id c))"
    and "sys = string_or (systemPrompt cfg) (generateSystemPrompt pers)"
  shows "(\<exists>rest. events_of (handleMessage settings pers cfg stringify gen st c)
                  = SendChatAction (toString_int (chat_id c)) ''typing''
                    # Generate t h # rest)
       \<and> h \<noteq> [] \<and> last h = JStr t
       \<and> (provider cfg = ''grok'' \<longrightarrow>
            posted (events_of (handleMessage settings pers cfg stringify
                                 (llm_service cfg pers stringify post) st c))
              = [grok_request cfg sys t h])
       \<and> (provider cfg = ''openai'' \<longrightarrow>
            posted (events_of (handleMessage settings pers cfg stringify
                                 (llm_service cfg pers stringify post) st c))
              = [openai_request cfg sys t h])
       \<and> (provider cfg = ''anthropic'' \<longrightarrow>
            posted (events_of (handleMessage settings pers cfg stringify
                                 (llm_service cfg pers stringify post) st c))
              = [anthropic_request cfg sys t h])
       \<and> (\<forall>ep. provider cfg = ''custom'' \<and> endpoint cfg = Some ep \<and> ep \<noteq> [] \<longrightarrow>
            posted (events_of (handleMessage settings pers cfg stringify
                                 (llm_service cfg pers stringify post) st c))
              = [custom_request_to cfg ep sys t h])
       \<and> (\<forall>req \<in> {grok_request cfg sys t h, openai_request cfg sys t h,
                     anthropic_request cfg sys t h}.
            map_option messages (chat_of (body req))
              = Some (\<lparr> role = ''system'', content = JStr sys \<rparr> # formatChatHistory h
                      @ [\<lparr> role = ''user'', content = JStr t \<rparr>]))
       \<and> content (last (formatChatHistory h)) = JStr t
       \<and> (\<forall>ep. \<exists>r. body (custom_request_to cfg ep sys t h) = Custom r
                   \<and> chat_history r = h \<and> last (chat_history r) = JStr t
                   \<and> user_message r = t)"
proof -
  let ?cid = "toString_int (chat_id c)"
  let ?st1 = "addToChatHistory st ?cid (JStr t)"
  have hl: "h \<noteq> [] \<and> last h = JStr t"
    unfolding assms(6) by (rule history_after_user_message_last)
  have ev: "events_of (handleMessage settings pers cfg stringify gen st c)
      = SendChatAction ?cid ''typing'' # events_of (respond settings gen ?st1 c ?cid t)
        @ (case escaped (respond settings gen ?st1 c ?cid t) of
             None \<Rightarrow> []
           | Some e \<Rightarrow> [LogError (''Error handling message: '' @ message e),
                        Reply (JStr apology)])"
    using assms(1-5)
    by (simp add: handleMessage_generation Let_def events_of_def split: option.splits)
  have 1: "\<exists>rest. events_of (handleMessage settings pers cfg stringify gen st c)
                  = SendChatAction ?cid ''typing'' # Generate t h # rest"
    using respond_starts_with_generate [of settings gen ?st1 c ?cid t]
    by (auto simp: ev assms(6))
  have p: "posted (events_of (handleMessage settings pers cfg stringify
                               (llm_service cfg pers stringify post) st c))
           = posted (fst (dispatch cfg post sys t h))"
    unfolding assms(6,7) using assms(1-5) by (rule posted_handleMessage_llm_service)
  have g: "provider cfg = ''grok'' \<longrightarrow>
            posted (fst (dispatch cfg post sys t h)) = [grok_request cfg sys t h]"
    by (simp add: posted_dispatch)
  have o: "provider cfg = ''openai'' \<longrightarrow>
            posted (fst (dispatch cfg post sys t h)) = [openai_request cfg sys t h]"
    by (simp add: posted_dispatch)
  have a: "provider cfg = ''anthropic'' \<longrightarrow>
            posted (fst (dispatch cfg post sys t h)) = [anthropic_request cfg sys t h]"
    by (simp add: posted_dispatch)
  have cu: "\<forall>ep. provider cfg = ''custom'' \<and> endpoint cfg = Some ep \<and> ep \<noteq> [] \<longrightarrow>
            posted (fst (dispatch cfg post sys t h)) = [custom_request_to cfg ep sys t h]"
    by (simp add: posted_dispatch)
  have ms: "\<forall>req \<in> {grok_request cfg sys t h, openai_request cfg sys t h,
                     anthropic_request cfg sys t h}.
            map_option messages (chat_of (body req))
              = Some (\<lparr> role = ''system'', content = JStr sys \<rparr> # formatChatHistory h
                      @ [\<lparr> role = ''user'', content = JStr t \<rparr>])"
    by (simp add: grok_request_def openai_request_def anthropic_request_def chat_messages_def)
  have fl: "content (last (formatChatHistory h)) = JStr t"
    using hl by (simp add: formatChatHistory_last)
  have cr: "\<forall>ep. \<exists>r. body (custom_request_to cfg ep sys t h) = Custom r
                   \<and> chat_history r = h \<and> last (chat_history r) = JStr t
                   \<and> user_message r = t"
    using hl by (simp add: custom_request_to_def)
  from 1 hl g o a cu ms fl cr show ?thesis
    unfolding p by (simp only: simp_thms)
qed


theorem user_message_sent_twice_witness:
  "message_text test_ctx = Some ''Hello bot''
   \<and> \<not> blocked_unauthorized test_settings (toString_int (from_id test_ctx))
   \<and> \<not> blocked_blacklisted test_settings (toString_int (from_id test_ctx))
   \<and> \<not> is_command test_settings ''Hello bot''
   \<and> sendChatAction_result test_ctx (toString_int (chat_id test_ctx)) ''typing'' = None
   \<and> provider (test_llm_config\<lparr> provider := ''grok'', model := Some ''grok-3'',
                 systemPrompt := Some ''You are a helpful assistant'' \<rparr>) = ''grok''
   \<and> posted (events_of (handleMessage test_settings test_personality
          (test_llm_config\<lparr> provider := ''grok'', model := Some ''grok-3'',
                            systemPrompt := Some ''You are a helpful assistant'' \<rparr>)
          no_stringify
          (llm_service (test_llm_config\<lparr> provider := ''grok'', model := Some ''grok-3'',
                            systemPrompt := Some ''You are a helpful assistant'' \<rparr>)
             test_personality no_stringify (\<lambda>req. Inl (Error ''Grok API request failed'')))
          (addToChatHistory (addToChatHistory initial_state ''123456'' (JStr ''Hi''))
             ''123456'' (JStr ''Hello! How can I help?''))
          test_ctx))
       = [\<lparr> url = ''https://api.grok.x/v1/chat/completions'',
            body = Chat \<lparr> r_model = ''grok-3'',
                     messages =
                       [\<lparr> role = ''system'', content = JStr ''You are a helpful assistant'' \<rparr>,
                        \<lparr> role = ''user'', content = JStr ''Hi'' \<rparr>,
                        \<lparr> role = ''assistant'', content = JStr ''Hello! How can I help?'' \<rparr>,
                        \<lparr> role = ''user'', content = JStr ''Hello bot'' \<rparr>,
                        \<lparr> role = ''user'', content = JStr ''Hello bot'' \<rparr>],
                     max_tokens = 1000, r_temperature = 7 / 10 \<rparr>,
            headers = [(''Authorization'', ''Bearer test-api-key''),
                       (''Content-Type'', ''application/json'')] \<rparr>]"
proof -
  have m: "message_text test_ctx = Some ''Hello bot''"
    by (simp add: test_ctx_def)
  have u: "\<not> blocked_unauthorized test_settings (toString_int (from_id test_ctx))"
    by (simp add: blocked_unauthorized_def test_settings_def)
  have b: "\<not> blocked_blacklisted test_settings (toString_int (from_id test_ctx))"
    by (simp add: blocked_blacklisted_def test_settings_def)
  have k: "\<not> is_command test_settings ''Hello bot''"
    by (simp add: is_command_def test_settings_def startsWith_def)
  have a: "sendChatAction_result test_ctx (toString_int (chat_id test_ctx)) ''typing'' = None"
    by (simp add: test_ctx_def)
  have pr: "provider (test_llm_config\<lparr> provider := ''grok'', model := Some ''grok-3'',
                 systemPrompt := Some ''You are a helpful assistant'' \<rparr>) = ''grok''"
    by simp
  have cid: "toString_int (chat_id test_ctx) = ''123456''"
    by (simp add: test_ctx_def toString_test_ids)
  have h: "getChatHistory
             (addToChatHistory
                (addToChatHistory (addToChatHistory initial_state ''123456'' (JStr ''Hi''))
                   ''123456'' (JStr ''Hello! How can I help?''))
                ''123456'' (JStr ''Hello bot'')) ''123456''
           = [JStr ''Hi'', JStr ''Hello! How can I help?'', JStr ''Hello bot'']"
    by (simp add: getChatHistory_add getChatHistory_initial slice_last_def maxHistoryLength_def)
  note t = user_message_sent_twice
             [OF m u b k a refl refl, of test_personality
                "test_llm_config\<lparr> provider := ''grok'', model := Some ''grok-3'',
                            systemPrompt := Some ''You are a helpful assistant'' \<rparr>"
                no_stringify
                "llm_service (test_llm_config\<lparr> provider := ''grok'', model := Some ''grok-3'',
                            systemPrompt := Some ''You are a helpful assistant'' \<rparr>)
                   test_personality no_stringify (\<lambda>req. Inl (Error ''Grok API request failed''))"
                "addToChatHistory (addToChatHistory initial_state ''123456'' (JStr ''Hi''))
                   ''123456'' (JStr ''Hello! How can I help?'')"
                "\<lambda>req. Inl (Error ''Grok API request failed'')"]
  have "posted (events_of (handleMessage test_settings test_personality
          (test_llm_config\<lparr> provider := ''grok'', model := Some ''grok-3'',
                            systemPrompt := Some ''You are a helpful assistant'' \<rparr>)
          no_stringify
          (llm_service (test_llm_config\<lparr> provider := ''grok'', model := Some ''grok-3'',
                            systemPrompt := Some ''You are a helpful assistant'' \<rparr>)
             test_personality no_stringify (\<lambda>req. Inl (Error ''Grok API request failed'')))
          (addToChatHistory (addToChatHistory initial_state ''123456'' (JStr ''Hi''))
             ''123456'' (JStr ''Hello! How can I help?''))
          test_ctx))
       = [\<lparr> url = ''https://api.grok.x/v1/chat/completions'',
            body = Chat \<lparr> r_model = ''grok-3'',
                     messages =
                       [\<lparr> role = ''system'', content = JStr ''You are a helpful assistant'' \<rparr>,
                        \<lparr> role = ''user'', content = JStr ''Hi'' \<rparr>,
                        \<lparr> role = ''assistant'', content = JStr ''Hello! How can I help?'' \<rparr>,
                        \<lparr> role = ''user'', content = JStr ''Hello bot'' \<rparr>,
                        \<lparr> role = ''user'', content = JStr ''Hello bot'' \<rparr>],
                     max_tokens = 1000, r_temperature = 7 / 10 \<rparr>,
            headers = [(''Authorization'', ''Bearer test-api-key''),
                       (''Content-Type'', ''application/json'')] \<rparr>]"
    using t [THEN conjunct2, THEN conjunct2, THEN conjunct2, THEN conjunct1] pr
    by (simp add: cid h test_llm_config_def grok_request_def chat_messages_def string_or_def
          number_or_def bearer_headers_def formatChatHistory_eq upt_rec)
  with m u b k a pr show ?thesis by (simp only: simp_thms)
qed

text \<open>
  The custom adapter appends no entry with role \<open>user\<close>: the request that the router
  triggers has no \<open>messages\<close> at all.
\<close>

theorem custom_request_has_no_user_role_entry:
  "posted (events_of (handleMessage test_settings test_personality
      (test_llm_config\<lparr> provider := ''custom'', model := Some ''custom-model'',
                        endpoint := Some ''https://custom-api.example.com'',
                        systemPrompt := Some ''You are a helpful assistant'' \<rparr>)
      no_stringify
      (llm_service (test_llm_config\<lparr> provider := ''custom'', model := Some ''custom-model'',
                        endpoint := Some ''https://custom-api.example.com'',
                        systemPrompt := Some ''You are a helpful assistant'' \<rparr>)
         test_personality no_stringify
         (\<lambda>req. Inr (JObj [(''text'', JStr ''This is a response from Custom API'')])))
      initial_state test_ctx))
   = [\<lparr> url = ''https://custom-api.example.com'',
        body = Custom \<lparr> c_model = Some ''custom-model'',
                        system_prompt = ''You are a helpful assistant'',
                        user_message = ''Hello bot'',
                        chat_history = [JStr ''Hello bot''],
                        c_max_tokens = 1000, c_temperature = 7 / 10 \<rparr>,
        headers = [(''Authorization'', ''Bearer test-api-key''),
                   (''Content-Type'', ''application/json'')] \<rparr>]
   \<and> map (\<lambda>req. map_option messages (chat_of (body req)))
         (posted (events_of (handleMessage test_settings test_personality
            (test_llm_config\<lparr> provider := ''custom'', model := Some ''custom-model'',
                              endpoint := Some ''https://custom-api.example.com'',
                              systemPrompt := Some ''You are a helpful assistant'' \<rparr>)
            no_stringify
            (llm_service (test_llm_config\<lparr> provider := ''custom'', model := Some ''custom-model'',
                              endpoint := Some ''https://custom-api.example.com'',
                              systemPrompt := Some ''You are a helpful assistant'' \<rparr>)
               test_personality no_stringify
               (\<lambda>req. Inr (JObj [(''text'', JStr ''This is a response from Custom API'')])))
            initial_state test_ctx)))
       = [None]"
proof -
  have m: "message_text test_ctx = Some ''Hello bot''"
    by (simp add: test_ctx_def)
  have u: "\<not> blocked_unauthorized test_settings (toString_int (from_id test_ctx))"
    by (simp add: blocked_unauthorized_def test_settings_def)
  have b: "\<not> blocked_blacklisted test_settings (toString_int (from_id test_ctx))"
    by (simp add: blocked_blacklisted_def test_settings_def)
  have k: "\<not> is_command test_settings ''Hello bot''"
    by (simp add: is_command_def test_settings_def startsWith_def)
  have a: "sendChatAction_result test_ctx (toString_int (chat_id test_ctx)) ''typing'' = None"
    by (simp add: test_ctx_def)
  have cid: "toString_int (chat_id test_ctx) = ''123456''"
    by (simp add: test_ctx_def toString_test_ids)
  have h: "getChatHistory (addToChatHistory initial_state ''123456'' (JStr ''Hello bot''))
             ''123456'' = [JStr ''Hello bot'']"
    by (simp add: getChatHistory_add getChatHistory_initial slice_last_def maxHistoryLength_def)
  show ?thesis
    unfolding posted_handleMessage_llm_service [OF m u b k a]
    by (simp add: cid h posted_dispatch test_llm_config_def custom_request_to_def string_or_def
          number_or_def bearer_headers_def)
qed


end
